theory Spec2Isabelle
  imports Main "HOL-Library.Sublist"
begin

section \<open>Python values used by the views\<close>

text \<open>
  The module \<^verbatim>\<open>flask_appbuilder/views.py\<close> is Python 2 code running inside Flask.
  The names and values of a request are Unicode texts; a text is modelled as a
  \<^typ>\<open>string\<close> whose characters stand for the code points U+0000 to U+00FF, so texts
  with code points beyond U+00FF are outside the model. Python's unbounded integers are
  modelled as \<^typ>\<open>int\<close>, and every exception the module can raise by itself as a value
  of \<open>error\<close>; a function that may raise returns \<open>error + 'a\<close>.
\<close>

datatype error = ValueError | TypeError | IndexError | AttributeError | BuildError

definition newline :: char where
  "newline = CHR 0x0A"

definition is_digit :: "char \<Rightarrow> bool" where
  "is_digit c = (48 \<le> (of_char c :: nat) \<and> (of_char c :: nat) \<le> 57)"

definition digit_val :: "char \<Rightarrow> nat" where
  "digit_val c = (of_char c :: nat) - 48"

text \<open>
  The white space of Unicode up to U+00FF, which \<^verbatim>\<open>int\<close> skips on a Unicode text: the
  ASCII white space U+0009 to U+000D and U+0020, the separators U+001C to U+001F, the
  next-line character U+0085 and the no-break space U+00A0. The decimal digits up to
  U+00FF are the ASCII digits.
\<close>

definition is_space :: "char \<Rightarrow> bool" where
  "is_space c =
     ((9 \<le> (of_char c :: nat) \<and> (of_char c :: nat) \<le> 13)
      \<or> (28 \<le> (of_char c :: nat) \<and> (of_char c :: nat) \<le> 32)
      \<or> (of_char c :: nat) = 133 \<or> (of_char c :: nat) = 160)"

definition digits_val :: "string \<Rightarrow> nat" where
  "digits_val ds = foldl (\<lambda>n c. 10 * n + digit_val c) 0 ds"

text \<open>
  \<^verbatim>\<open>int(x)\<close> of Python 2 on a text: white space, an optional sign, white space again
  (Python 2 skips it after the sign as well), one or more decimal digits, white space.
  Anything else raises ValueError; \<^verbatim>\<open>int(None)\<close> raises TypeError.
\<close>

definition py_int :: "string \<Rightarrow> error + int" where
  "py_int s =
     (let t = dropWhile is_space s;
          neg = (case t of [] \<Rightarrow> False | c # _ \<Rightarrow> c = CHR ''-'');
          u = (case t of [] \<Rightarrow> [] | c # r \<Rightarrow> if c = CHR ''-'' \<or> c = CHR ''+'' then r else t);
          w = dropWhile is_space u;
          ds = takeWhile is_digit w;
          trailing = dropWhile is_space (dropWhile is_digit w)
      in if ds = [] \<or> trailing \<noteq> [] then Inl ValueError
         else Inr (if neg then - int (digits_val ds) else int (digits_val ds)))"

definition py_int_opt :: "string option \<Rightarrow> error + int" where
  "py_int_opt x = (case x of None \<Rightarrow> Inl TypeError | Some s \<Rightarrow> py_int s)"

subsection \<open>Regular-expression searches\<close>

text \<open>
  \<^verbatim>\<open>re.findall(pattern, text)\<close> scans the text from left to right and returns the groups
  of every non-overlapping match. A pattern is given here by its matcher at a position:
  \<open>m s = Some (g, n)\<close> when the pattern matches at the start of \<open>s\<close>, with groups \<open>g\<close>
  and a match of \<open>n\<close> characters. The three patterns of the module start with a literal,
  so they never match the empty text and the scan need not try the end of the text.
  The first argument of \<open>findall_from\<close> counts the characters of the last match that are
  still to be skipped.
\<close>

fun findall_from :: "(string \<Rightarrow> ('g \<times> nat) option) \<Rightarrow> nat \<Rightarrow> string \<Rightarrow> 'g list" where
  "findall_from m k [] = []"
| "findall_from m (Suc k) (c # cs) = findall_from m k cs"
| "findall_from m 0 (c # cs) =
     (case m (c # cs) of
        None \<Rightarrow> findall_from m 0 cs
      | Some (g, n) \<Rightarrow> g # findall_from m (n - 1) cs)"

definition re_findall :: "(string \<Rightarrow> ('g \<times> nat) option) \<Rightarrow> string \<Rightarrow> 'g list" where
  "re_findall m s = findall_from m 0 s"

text \<open>
  \<^verbatim>\<open>(.*)\<close> is greedy and \<^verbatim>\<open>.\<close> matches every character but the line feed: the
  group is the rest of the line.
\<close>

definition rest_of_line :: "string \<Rightarrow> string" where
  "rest_of_line s = takeWhile (\<lambda>c. c \<noteq> newline) s"

text \<open>The patterns \<^verbatim>\<open>'page_(.*)'\<close> and \<^verbatim>\<open>'_oc_(.*)'\<close>: a literal, then the rest of the line.\<close>

definition match_lit :: "string \<Rightarrow> string \<Rightarrow> (string \<times> nat) option" where
  "match_lit lit s =
     (if prefix lit s
      then Some (rest_of_line (drop (length lit) s),
                 length lit + length (rest_of_line (drop (length lit) s)))
      else None)"

text \<open>
  The pattern \<^verbatim>\<open>'_flt_(\d)_(.*)'\<close>: the literal, one decimal digit, an underscore, the
  rest of the line. Without the UNICODE flag \<^verbatim>\<open>\d\<close> is \<^verbatim>\<open>[0-9]\<close> in Python 2.
\<close>

definition match_flt :: "string \<Rightarrow> ((char \<times> string) \<times> nat) option" where
  "match_flt s =
     (if prefix ''_flt_'' s
      then (case drop 5 s of
              d # u # r \<Rightarrow>
                if is_digit d \<and> u = CHR ''_''
                then Some ((d, rest_of_line r), 7 + length (rest_of_line r))
                else None
            | _ \<Rightarrow> None)
      else None)"

subsection \<open>The request's query arguments\<close>

text \<open>
  \<^verbatim>\<open>request.args\<close> is a Werkzeug MultiDict built from the query string: a dictionary
  from every name sent to the list of the values sent under it. It is given here by its
  items, in the order in which the dictionary iterates (an order Python 2 leaves to the
  dictionary); in a dictionary the names are distinct. Iterating over it yields the
  names, and \<^verbatim>\<open>request.args.get(name)\<close> is the first value of the name's list, or None
  when the name is missing or its list is empty.
\<close>

type_synonym multidict = "(string \<times> string list) list"

definition md_keys :: "multidict \<Rightarrow> string list" where
  "md_keys args = map fst args"

definition md_get :: "multidict \<Rightarrow> string \<Rightarrow> string option" where
  "md_get args k =
     (case map_of args k of
        None \<Rightarrow> None
      | Some vs \<Rightarrow> (case vs of [] \<Rightarrow> None | v # _ \<Rightarrow> Some v))"

section \<open>BaseModelView: parsing the query arguments\<close>

text \<open>
  \<^verbatim>\<open>_get_page_args\<close>: for every argument name in which \<^verbatim>\<open>'page_(.*)'\<close> is found, the
  dictionary entry for the first match's group is set to \<^verbatim>\<open>int\<close> of the argument's
  value; a value that \<^verbatim>\<open>int\<close> rejects ends the call with its exception.
\<close>

fun page_loop :: "multidict \<Rightarrow> string list \<Rightarrow> (string \<rightharpoonup> int) \<Rightarrow> error + (string \<rightharpoonup> int)" where
  "page_loop args [] pages = Inr pages"
| "page_loop args (arg # rest) pages =
     (case re_findall (match_lit ''page_'') arg of
        [] \<Rightarrow> page_loop args rest pages
      | v # _ \<Rightarrow>
          (case py_int_opt (md_get args arg) of
             Inl e \<Rightarrow> Inl e
           | Inr n \<Rightarrow> page_loop args rest (pages(v \<mapsto> n))))"

definition get_page_args :: "multidict \<Rightarrow> error + (string \<rightharpoonup> int)" where
  "get_page_args args = page_loop args (md_keys args) Map.empty"

text \<open>
  \<^verbatim>\<open>_get_order_args\<close>: for every argument name in which \<^verbatim>\<open>'_oc_(.*)'\<close> is found, the
  entry for the group is the pair of that argument's value and of the value of the
  argument \<^verbatim>\<open>'_od_'\<close> + group (None when there is none).
\<close>

fun order_loop :: "multidict \<Rightarrow> string list \<Rightarrow> (string \<rightharpoonup> string option \<times> string option)
    \<Rightarrow> (string \<rightharpoonup> string option \<times> string option)" where
  "order_loop args [] orders = orders"
| "order_loop args (arg # rest) orders =
     (case re_findall (match_lit ''_oc_'') arg of
        [] \<Rightarrow> order_loop args rest orders
      | v # _ \<Rightarrow> order_loop args rest (orders(v \<mapsto> (md_get args arg, md_get args (''_od_'' @ v)))))"

definition get_order_args :: "multidict \<Rightarrow> (string \<rightharpoonup> string option \<times> string option)" where
  "get_order_args args = order_loop args (md_keys args) Map.empty"

text \<open>
  What the handlers read of a search result: \<^verbatim>\<open>if re_match:\<close> and then \<^verbatim>\<open>re_match[0]\<close>.
\<close>

definition first_match :: "(string \<Rightarrow> ('g \<times> nat) option) \<Rightarrow> string \<Rightarrow> 'g option" where
  "first_match m s = (case re_findall m s of [] \<Rightarrow> None | g # _ \<Rightarrow> Some g)"

subsection \<open>The filter collection\<close>

text \<open>
  Modelled from the spec: the class \<^verbatim>\<open>Filters\<close> (models/filters.py) is not among the
  sources. The spec calls a filter a per-column predicate built from the query
  arguments, and the view hands \<^verbatim>\<open>add_filter_index\<close> a column name, an index and a
  value; the collection is modelled as the list of these triples, in the order they were
  added, and \<^verbatim>\<open>clear_filters\<close> as emptying it.
\<close>

type_synonym filters = "(string \<times> nat \<times> string option) list"

definition clear_filters :: "filters \<Rightarrow> filters" where
  "clear_filters fs = []"

definition add_filter_index :: "string \<Rightarrow> nat \<Rightarrow> string option \<Rightarrow> filters \<Rightarrow> filters" where
  "add_filter_index column_name filter_instance_index v fs =
     fs @ [(column_name, filter_instance_index, v)]"

text \<open>
  \<^verbatim>\<open>_get_filter_args\<close>: the collection is cleared, then every argument name in which
  \<^verbatim>\<open>'_flt_(\d)_(.*)'\<close> is found adds a filter for the second group (the column), with
  \<^verbatim>\<open>int\<close> of the first group (one digit, so \<^verbatim>\<open>int\<close> cannot fail) and the argument's
  value.
\<close>

fun filter_loop :: "multidict \<Rightarrow> string list \<Rightarrow> filters \<Rightarrow> filters" where
  "filter_loop args [] fs = fs"
| "filter_loop args (arg # rest) fs =
     (case re_findall match_flt arg of
        [] \<Rightarrow> filter_loop args rest fs
      | (d, col) # _ \<Rightarrow>
          filter_loop args rest (add_filter_index col (digit_val d) (md_get args arg) fs))"

definition get_filter_args :: "multidict \<Rightarrow> filters \<Rightarrow> filters" where
  "get_filter_args args fs = filter_loop args (md_keys args) (clear_filters fs)"

section \<open>BaseView\<close>

text \<open>
  An attribute of a view as the module reads it: whether it carries \<^verbatim>\<open>_urls\<close> (the
  list the decorator \<^verbatim>\<open>expose\<close> builds) and whether it carries \<^verbatim>\<open>_action\<close>.
\<close>

record method_attr =
  urls :: "(string \<times> string list) list option"
  has_action :: bool

text \<open>\<^verbatim>\<open>expose(url, methods)(f)\<close>: the pair is appended to \<^verbatim>\<open>f._urls\<close>, created when missing.\<close>

definition expose :: "string \<Rightarrow> string list \<Rightarrow> method_attr \<Rightarrow> method_attr" where
  "expose url methods f =
     (let f1 = (if urls f = None then f\<lparr>urls := Some []\<rparr> else f)
      in f1\<lparr>urls := map_option (\<lambda>us. us @ [(url, methods)]) (urls f1)\<rparr>)"

text \<open>The application object, as far as a view reads it: its index view.\<close>

record base_app =
  indexview_endpoint :: "string option"
  indexview_default_view :: string

text \<open>
  A Flask blueprint: the arguments of its constructor and the rules added with
  \<^verbatim>\<open>add_url_rule(url, endpoint, view_func, methods=...)\<close>, in the order they were
  added. The view function of a rule is the attribute the endpoint names.
\<close>

record blueprint =
  bp_name :: string
  url_prefix :: string
  bp_template_folder :: string
  bp_static_folder :: "string option"
  url_rules :: "(string \<times> string \<times> string list) list"

text \<open>
  The fields of BaseView. \<open>attrs\<close> is what \<^verbatim>\<open>dir(self)\<close> lists, each name with the
  attribute \<^verbatim>\<open>getattr\<close> returns for it.
\<close>

record base_view =
  class_name :: string
  attrs :: "(string \<times> method_attr) list"
  baseapp :: "base_app option"
  blueprint :: "blueprint option"
  endpoint :: "string option"
  route_base :: "string option"
  template_folder :: string
  static_folder :: "string option"
  base_permissions :: "string list option"
  actions :: "string list option"
  default_view :: string

text \<open>
  \<^verbatim>\<open>BaseView.__init__\<close>. In the second loop \<^verbatim>\<open>attr_name._action\<close> is read off the
  name, a text, which has no such attribute: the first attribute that carries
  \<^verbatim>\<open>_action\<close> ends the constructor with AttributeError, before anything is appended.
\<close>

fun action_loop :: "(string \<times> method_attr) list \<Rightarrow> 'a base_view_scheme \<Rightarrow> error + 'a base_view_scheme" where
  "action_loop [] self = Inr self"
| "action_loop ((attr_name, attr) # rest) self =
     (if has_action attr then Inl AttributeError else action_loop rest self)"

definition base_view_init :: "'a base_view_scheme \<Rightarrow> error + 'a base_view_scheme" where
  "base_view_init self =
     (if base_permissions self = None
      then action_loop (attrs self)
             (self\<lparr>base_permissions :=
                      Some (map (\<lambda>(attr_name, attr). ''can_'' @ attr_name)
                              (filter (\<lambda>(attr_name, attr). urls attr \<noteq> None) (attrs self))),
                   actions := (if actions self = None \<or> actions self = Some []
                               then Some [] else actions self)\<rparr>)
      else Inr self)"

text \<open>\<^verbatim>\<open>str.lower()\<close> on a class name, which is ASCII.\<close>

definition lower_char :: "char \<Rightarrow> char" where
  "lower_char c =
     (if 65 \<le> (of_char c :: nat) \<and> (of_char c :: nat) \<le> 90
      then char_of ((of_char c :: nat) + 32) else c)"

definition lower :: "string \<Rightarrow> string" where
  "lower s = map lower_char s"

text \<open>\<^verbatim>\<open>_register_urls\<close>: the two nested loops, acting on the blueprint.\<close>

fun add_url_rules :: "string \<Rightarrow> (string \<times> string list) list \<Rightarrow> blueprint \<Rightarrow> blueprint" where
  "add_url_rules attr_name [] bp = bp"
| "add_url_rules attr_name ((url, methods) # rest) bp =
     add_url_rules attr_name rest (bp\<lparr>url_rules := url_rules bp @ [(url, attr_name, methods)]\<rparr>)"

fun register_urls :: "(string \<times> method_attr) list \<Rightarrow> blueprint \<Rightarrow> blueprint" where
  "register_urls [] bp = bp"
| "register_urls ((attr_name, attr) # rest) bp =
     (case urls attr of
        None \<Rightarrow> register_urls rest bp
      | Some us \<Rightarrow> register_urls rest (add_url_rules attr_name us bp))"

text \<open>
  \<^verbatim>\<open>create_blueprint(baseapp, endpoint, static_folder)\<close>. The parameter
  \<^verbatim>\<open>endpoint\<close> is not read by the body. The updated view is returned; the blueprint the
  source returns is its field \<open>blueprint\<close>.
\<close>

definition create_blueprint ::
    "'a base_view_scheme \<Rightarrow> base_app \<Rightarrow> string option \<Rightarrow> string option \<Rightarrow> 'a base_view_scheme" where
  "create_blueprint self app endpoint_arg static_folder_arg =
     (let ep = (case endpoint self of
                  None \<Rightarrow> class_name self
                | Some e \<Rightarrow> if e = [] then class_name self else e);
          rb = (case route_base self of
                  None \<Rightarrow> ''/'' @ lower (class_name self)
                | Some r \<Rightarrow> r);
          bp = \<lparr>bp_name = ep, url_prefix = rb, bp_template_folder = template_folder self,
                bp_static_folder = (case static_folder_arg of
                                      None \<Rightarrow> None
                                    | Some f \<Rightarrow> if f = [] then None else Some f),
                url_rules = []\<rparr>
      in self\<lparr>baseapp := Some app, endpoint := Some ep, route_base := Some rb,
              static_folder := static_folder_arg,
              blueprint := Some (register_urls (attrs self) bp)\<rparr>)"

text \<open>
  \<^verbatim>\<open>_get_redirect\<close>. \<open>url_for\<close> is Flask's: None stands for the BuildError it raises on
  an endpoint it does not know. The bare \<^verbatim>\<open>except:\<close> catches whatever the first call
  raises; the second call is not guarded. \<^verbatim>\<open>'%s.%s' % (a, b)\<close> prints None as
  \<^verbatim>\<open>None\<close>.
\<close>

definition py_str :: "string option \<Rightarrow> string" where
  "py_str x = (case x of None \<Rightarrow> ''None'' | Some s \<Rightarrow> s)"

definition get_redirect ::
    "(string \<Rightarrow> string option) \<Rightarrow> multidict \<Rightarrow> 'a base_view_scheme \<Rightarrow> error + string" where
  "get_redirect url_for args self =
     (let fallback =
            (case url_for (py_str (endpoint self) @ ''.'' @ default_view self) of
               Some u \<Rightarrow> Inr u
             | None \<Rightarrow>
                 (case baseapp self of
                    None \<Rightarrow> Inl AttributeError
                  | Some app \<Rightarrow>
                      (case url_for (py_str (indexview_endpoint app) @ ''.'' @ indexview_default_view app) of
                         Some u \<Rightarrow> Inr u
                       | None \<Rightarrow> Inl BuildError)))
      in case md_get args ''next'' of
           None \<Rightarrow> fallback
         | Some n \<Rightarrow> if n = [] then fallback else Inr n)"

section \<open>Fieldsets and column lists\<close>

text \<open>
  A fieldset is a pair of a title (or None) and a dictionary that holds the list of field
  names under \<^verbatim>\<open>'fields'\<close>. The loop \<^verbatim>\<open>for fieldset_item in fieldsets: columns =
  columns + list(fieldset_item[1].get('fields'))\<close>; on a dictionary with no such entry
  \<^verbatim>\<open>get\<close> returns None and \<^verbatim>\<open>list(None)\<close> raises TypeError.
\<close>

type_synonym fieldset = "string option \<times> (string \<times> string list) list"

fun fieldset_loop :: "fieldset list \<Rightarrow> string list \<Rightarrow> error + string list" where
  "fieldset_loop [] columns = Inr columns"
| "fieldset_loop (fieldset_item # rest) columns =
     (case map_of (snd fieldset_item) ''fields'' of
        None \<Rightarrow> Inl TypeError
      | Some field_list \<Rightarrow> fieldset_loop rest (columns @ field_list))"

text \<open>
  The block both \<^verbatim>\<open>_init_vars\<close> apply to a pair of a fieldset list and a column
  list (the source writes it once for the form and once each for show, add and edit):
  with fieldsets the columns are rebuilt from them, otherwise an unset or empty column
  list becomes \<open>list_cols\<close>.
\<close>

definition init_columns ::
    "fieldset list \<Rightarrow> string list option \<Rightarrow> string list \<Rightarrow> error + string list option" where
  "init_columns fieldsets columns list_cols =
     (if fieldsets \<noteq> []
      then (case fieldset_loop fieldsets [] of Inl e \<Rightarrow> Inl e | Inr cs \<Rightarrow> Inr (Some cs))
      else if columns = None \<or> columns = Some [] then Inr (Some list_cols)
      else Inr columns)"

section \<open>The world a handler talks to\<close>

text \<open>
  Requests and routing belong to Flask, forms to WTForms, items to the ORM; the
  datamodel (models/datamodel.py), the form converter (forms.py) and the widgets are
  modules of the package that are not among the sources. A handler receives what it
  reads from them as an environment: \<open>'i\<close> is the type of the items of the model,
  \<open>'f\<close> that of bound forms. The fields are named after the calls of the source they
  stand for: \<open>form_refresh\<close> for \<^verbatim>\<open>self.form.refresh()\<close>, \<open>add_form_refresh\<close> for
  \<^verbatim>\<open>self.add_form.refresh()\<close>, \<open>edit_form_request\<close> for
  \<^verbatim>\<open>self.edit_form(request.form).refresh(obj=item)\<close>, \<open>edit_form_obj\<close> for
  \<^verbatim>\<open>self.edit_form(obj=item).refresh(obj=item)\<close>, \<open>set_id\<close> for the assignment
  \<^verbatim>\<open>form._id = pk\<close>, \<open>datamodel_obj\<close> for \<^verbatim>\<open>self.datamodel.obj()\<close>. The two
  accessors of the filter collection that the handlers call besides
  \<^verbatim>\<open>add_filter_index\<close> are part of it as well.
\<close>

record ('i, 'f) env =
  req_args :: multidict
  req_method :: string
  flask_url_for :: "string \<Rightarrow> string option"
  form_refresh :: 'f
  field_names :: "'f \<Rightarrow> string list"
  add_form_refresh :: 'f
  edit_form_request :: "'i \<Rightarrow> 'f"
  edit_form_obj :: "'i \<Rightarrow> 'f"
  search_form_refresh :: 'f
  set_id :: "'f \<Rightarrow> int \<Rightarrow> 'f"
  validate_on_submit :: "'f \<Rightarrow> bool"
  validate :: "'f \<Rightarrow> bool"
  populate_obj :: "'f \<Rightarrow> 'i \<Rightarrow> 'i"
  setattr :: "'i \<Rightarrow> string \<Rightarrow> 'i \<Rightarrow> 'i"
  datamodel_obj :: 'i
  datamodel_get :: "int \<Rightarrow> 'i"
  get_related_obj :: "string \<Rightarrow> string option \<Rightarrow> 'i"
  get_columns_list :: "string list"
  get_order_columns_list :: "string list"
  get_relation_cols :: "filters \<Rightarrow> string list"
  get_filter_value :: "filters \<Rightarrow> string \<Rightarrow> string option"

text \<open>
  What a handler leaves behind besides its response: the calls of the overridable hooks
  and of the datamodel's writing methods, in the order they were made. The hooks of the
  module are empty (\<^verbatim>\<open>pass\<close>) and return; each is modelled as recording that it was
  called, and with which argument.

  Modelled from the spec: the methods \<^verbatim>\<open>add\<close>, \<^verbatim>\<open>edit\<close> and \<^verbatim>\<open>delete\<close> of the
  datamodel are not among the sources. The spec has a handler delegate persistence to
  the ORM through them; each is modelled as recording that it was called, and with which
  item.
\<close>

datatype ('i, 'f) call =
    Pre_add 'i | Datamodel_add 'i | Post_add 'i
  | Pre_update 'i | Datamodel_edit 'i | Post_update 'i
  | Pre_delete 'i | Datamodel_delete 'i | Post_delete 'i
  | Form_post 'f

definition pre_add :: "'i \<Rightarrow> ('i, 'f) call list \<Rightarrow> ('i, 'f) call list" where
  "pre_add item calls = calls @ [Pre_add item]"

definition datamodel_add :: "'i \<Rightarrow> ('i, 'f) call list \<Rightarrow> ('i, 'f) call list" where
  "datamodel_add item calls = calls @ [Datamodel_add item]"

definition post_add :: "'i \<Rightarrow> ('i, 'f) call list \<Rightarrow> ('i, 'f) call list" where
  "post_add item calls = calls @ [Post_add item]"

definition pre_update :: "'i \<Rightarrow> ('i, 'f) call list \<Rightarrow> ('i, 'f) call list" where
  "pre_update item calls = calls @ [Pre_update item]"

definition datamodel_edit :: "'i \<Rightarrow> ('i, 'f) call list \<Rightarrow> ('i, 'f) call list" where
  "datamodel_edit item calls = calls @ [Datamodel_edit item]"

definition post_update :: "'i \<Rightarrow> ('i, 'f) call list \<Rightarrow> ('i, 'f) call list" where
  "post_update item calls = calls @ [Post_update item]"

definition pre_delete :: "'i \<Rightarrow> ('i, 'f) call list \<Rightarrow> ('i, 'f) call list" where
  "pre_delete item calls = calls @ [Pre_delete item]"

definition datamodel_delete :: "'i \<Rightarrow> ('i, 'f) call list \<Rightarrow> ('i, 'f) call list" where
  "datamodel_delete item calls = calls @ [Datamodel_delete item]"

definition post_delete :: "'i \<Rightarrow> ('i, 'f) call list \<Rightarrow> ('i, 'f) call list" where
  "post_delete item calls = calls @ [Post_delete item]"

definition form_post :: "'f \<Rightarrow> ('i, 'f) call list \<Rightarrow> ('i, 'f) call list" where
  "form_post form calls = calls @ [Form_post form]"

text \<open>
  Widgets and responses, by the arguments the handlers give them. A list widget stands
  for the query its view runs (a read of the datamodel, which is not recorded among the
  calls); the related lists hold, for every related view, its class name, the item, the
  order column and direction, the page and the page size. The dictionaries \<^verbatim>\<open>widgets\<close>
  of the source are default arguments, shared between calls; a handler assigns every
  entry of its dictionary before it renders it, and the dictionary is modelled as the
  list of the entries assigned.
\<close>

datatype ('i, 'f) widget =
    Form_widget "string option" 'f "string list option" "string list" "fieldset list"
  | List_widget "string option" "string list option" filters "string option" "string option"
      "int option" int string
  | Search_widget "string option" 'f "string list option" filters
  | Related_lists "(string \<times> 'i \<times> string option \<times> string option \<times> int option \<times> int) list"

datatype ('i, 'f) response =
    Redirect string
  | Render_template string string "(string \<times> ('i, 'f) widget) list"

text \<open>\<^verbatim>\<open>redirect(self._get_redirect())\<close>: the exception of the inner call passes through.\<close>

definition redirect_to :: "error + string \<Rightarrow> error + ('i, 'f) response" where
  "redirect_to target = (case target of Inl e \<Rightarrow> Inl e | Inr url \<Rightarrow> Inr (Redirect url))"

section \<open>SimpleFormView\<close>

record simple_form_view = base_view +
  form_template :: string
  form_title :: string
  form_columns :: "string list option"
  form_fieldsets :: "fieldset list option"

text \<open>
  \<^verbatim>\<open>SimpleFormView._init_vars\<close>: \<open>list_cols\<close> are the names of the fields of
  \<^verbatim>\<open>self.form.refresh()\<close>. An exception leaves the method; the half-updated view is
  not kept.
\<close>

definition simple_init_vars ::
    "('i, 'f) env \<Rightarrow> 'a simple_form_view_scheme \<Rightarrow> error + 'a simple_form_view_scheme" where
  "simple_init_vars env self =
     (let s1 = self\<lparr>form_columns :=
                      (if form_columns self = None \<or> form_columns self = Some []
                       then Some [] else form_columns self)\<rparr>;
          s2 = s1\<lparr>form_fieldsets :=
                      (if form_fieldsets s1 = None \<or> form_fieldsets s1 = Some []
                       then Some [] else form_fieldsets s1)\<rparr>;
          list_cols = field_names env (form_refresh env)
      in case init_columns (case form_fieldsets s2 of None \<Rightarrow> [] | Some fs \<Rightarrow> fs)
                (form_columns s2) list_cols of
           Inl e \<Rightarrow> Inl e
         | Inr cs \<Rightarrow> Inr (s2\<lparr>form_columns := cs\<rparr>))"

text \<open>
  \<^verbatim>\<open>this_form_post\<close>. A handler is modelled by its body, which the decorator
  \<^verbatim>\<open>has_access\<close> (security/decorators.py, not among the sources) runs for a user who
  has the permission. It takes the view and the calls made so far and returns its
  outcome (an exception or a response), the view and the calls.
\<close>

definition this_form_post ::
    "('i, 'f) env \<Rightarrow> 'a simple_form_view_scheme \<Rightarrow> ('i, 'f) call list
     \<Rightarrow> (error + ('i, 'f) response) \<times> 'a simple_form_view_scheme \<times> ('i, 'f) call list" where
  "this_form_post env self calls =
     (case simple_init_vars env self of
        Inl e \<Rightarrow> (Inl e, self, calls)
      | Inr s1 \<Rightarrow>
          (let form = form_refresh env
           in if validate_on_submit env form
              then (let calls1 = form_post form calls
                    in (redirect_to (get_redirect (flask_url_for env) (req_args env) s1), s1, calls1))
              else (Inr (Render_template (form_template s1) (form_title s1)
                           [(''edit'', Form_widget (route_base s1) form (form_columns s1) []
                                        (case form_fieldsets s1 of None \<Rightarrow> [] | Some fs \<Rightarrow> fs))]),
                    s1, calls)))"

section \<open>BaseModelView, BaseCRUDView and GeneralView\<close>

text \<open>A related view, as far as the view that shows it reads it.\<close>

record related_view =
  rv_class_name :: string
  rv_page_size :: int

record crud_view = base_view +
  view_filters :: filters
  search_columns :: "string list option"
  related_views :: "related_view list option"
  list_title :: string
  add_title :: string
  edit_title :: string
  list_columns :: "string list option"
  show_columns :: "string list option"
  add_columns :: "string list option"
  edit_columns :: "string list option"
  order_columns :: "string list option"
  page_size :: int
  show_fieldsets :: "fieldset list"
  add_fieldsets :: "fieldset list"
  edit_fieldsets :: "fieldset list"
  list_template :: string
  add_template :: string
  edit_template :: string

text \<open>
  \<^verbatim>\<open>BaseCRUDView._init_vars\<close>. \<^verbatim>\<open>order_cols[0]\<close> is read only when no list columns
  are configured and raises IndexError on an empty list. The source assigns the order
  columns to a local name, so the field \<open>order_columns\<close> stays as it was.
\<close>

definition crud_init_vars ::
    "('i, 'f) env \<Rightarrow> 'a crud_view_scheme \<Rightarrow> error + 'a crud_view_scheme" where
  "crud_init_vars env self =
     (let s1 = self\<lparr>related_views :=
                      (if related_views self = None \<or> related_views self = Some []
                       then Some [] else related_views self)\<rparr>;
          order_cols = get_order_columns_list env;
          list_cols = get_columns_list env
      in if (list_columns s1 = None \<or> list_columns s1 = Some []) \<and> order_cols = []
         then Inl IndexError
         else
          (let s2 = s1\<lparr>list_columns :=
                           (if list_columns s1 = None \<or> list_columns s1 = Some []
                            then Some [hd order_cols] else list_columns s1)\<rparr>
           in case init_columns (show_fieldsets s2) (show_columns s2) list_cols of
                Inl e \<Rightarrow> Inl e
              | Inr show_cs \<Rightarrow>
                 (case init_columns (add_fieldsets s2) (add_columns s2) list_cols of
                    Inl e \<Rightarrow> Inl e
                  | Inr add_cs \<Rightarrow>
                     (case init_columns (edit_fieldsets s2) (edit_columns s2) list_cols of
                        Inl e \<Rightarrow> Inl e
                      | Inr edit_cs \<Rightarrow>
                          Inr (s2\<lparr>show_columns := show_cs, add_columns := add_cs,
                                   edit_columns := edit_cs\<rparr>)))))"

text \<open>
  \<^verbatim>\<open>_get_related_list_widgets\<close>: one entry for every related view; iterating over
  \<^verbatim>\<open>related_views\<close> while it is still None raises TypeError.
\<close>

definition get_related_list_widgets ::
    "'a crud_view_scheme \<Rightarrow> 'i \<Rightarrow> (string \<rightharpoonup> string option \<times> string option) \<Rightarrow> (string \<rightharpoonup> int)
     \<Rightarrow> error + ('i, 'f) widget" where
  "get_related_list_widgets self item orders pages =
     (case related_views self of
        None \<Rightarrow> Inl TypeError
      | Some views \<Rightarrow>
          Inr (Related_lists
                 (map (\<lambda>view.
                         (case orders (rv_class_name view) of
                            Some (order_column, order_direction) \<Rightarrow>
                              (rv_class_name view, item, order_column, order_direction,
                               pages (rv_class_name view), rv_page_size view)
                          | None \<Rightarrow>
                              (rv_class_name view, item, Some [], Some [],
                               pages (rv_class_name view), rv_page_size view)))
                    views)))"

text \<open>
  The loop of \<^verbatim>\<open>add\<close> and \<^verbatim>\<open>edit\<close> that sets, for every relation column of the
  filters, the related object on the item.
\<close>

definition set_related :: "('i, 'f) env \<Rightarrow> filters \<Rightarrow> string list \<Rightarrow> 'i \<Rightarrow> 'i" where
  "set_related env fs exclude_cols item =
     fold (\<lambda>filter_key it.
             setattr env it filter_key
               (get_related_obj env filter_key (get_filter_value env fs filter_key)))
       exclude_cols item"

text \<open>\<^verbatim>\<open>GeneralView.list\<close>.\<close>

definition gv_list ::
    "('i, 'f) env \<Rightarrow> 'a crud_view_scheme \<Rightarrow> ('i, 'f) call list
     \<Rightarrow> (error + ('i, 'f) response) \<times> 'a crud_view_scheme \<times> ('i, 'f) call list" where
  "gv_list env self calls =
     (let form = search_form_refresh env;
          order = (case get_order_args (req_args env) (class_name self) of
                     Some od \<Rightarrow> od
                   | None \<Rightarrow> (Some [], Some []))
      in case get_page_args (req_args env) of
           Inl e \<Rightarrow> (Inl e, self, calls)
         | Inr pages \<Rightarrow>
             (let page = pages (class_name self);
                  s1 = self\<lparr>view_filters := get_filter_args (req_args env) (view_filters self)\<rparr>
              in (Inr (Render_template (list_template s1) (list_title s1)
                         [(''list'', List_widget (route_base s1) (list_columns s1) (view_filters s1)
                                      (fst order) (snd order) page (page_size s1) (class_name s1)),
                          (''search'', Search_widget (route_base s1) form (search_columns s1)
                                        (view_filters s1))]),
                  s1, calls)))"

text \<open>\<^verbatim>\<open>GeneralView.add\<close>.\<close>

definition gv_add ::
    "('i, 'f) env \<Rightarrow> 'a crud_view_scheme \<Rightarrow> ('i, 'f) call list
     \<Rightarrow> (error + ('i, 'f) response) \<times> 'a crud_view_scheme \<times> ('i, 'f) call list" where
  "gv_add env self calls =
     (let s1 = self\<lparr>view_filters := get_filter_args (req_args env) (view_filters self)\<rparr>;
          form = add_form_refresh env;
          exclude_cols = get_relation_cols env (view_filters s1)
      in if validate_on_submit env form
         then (let item = set_related env (view_filters s1) exclude_cols
                            (populate_obj env form (datamodel_obj env));
                   calls1 = pre_add item calls;
                   calls2 = datamodel_add item calls1;
                   calls3 = post_add item calls2
               in (redirect_to (get_redirect (flask_url_for env) (req_args env) s1), s1, calls3))
         else (Inr (Render_template (add_template s1) (add_title s1)
                      [(''add'', Form_widget (route_base s1) form (add_columns s1) exclude_cols
                                  (add_fieldsets s1))]),
               s1, calls))"

text \<open>\<^verbatim>\<open>GeneralView.edit\<close>.\<close>

definition gv_edit ::
    "('i, 'f) env \<Rightarrow> 'a crud_view_scheme \<Rightarrow> int \<Rightarrow> ('i, 'f) call list
     \<Rightarrow> (error + ('i, 'f) response) \<times> 'a crud_view_scheme \<times> ('i, 'f) call list" where
  "gv_edit env self pk calls =
     (case get_page_args (req_args env) of
        Inl e \<Rightarrow> (Inl e, self, calls)
      | Inr pages \<Rightarrow>
          (let orders = get_order_args (req_args env);
               item = datamodel_get env pk;
               s1 = self\<lparr>view_filters := get_filter_args (req_args env) (view_filters self)\<rparr>;
               exclude_cols = get_relation_cols env (view_filters s1)
           in if req_method env = ''POST''
              then (let form = set_id env (edit_form_request env item) pk
                    in if validate env form
                       then (let item1 = set_related env (view_filters s1) exclude_cols
                                           (populate_obj env form item);
                                 calls1 = pre_update item1 calls;
                                 calls2 = datamodel_edit item1 calls1;
                                 calls3 = post_update item1 calls2
                             in (redirect_to (get_redirect (flask_url_for env) (req_args env) s1),
                                 s1, calls3))
                       else (case get_related_list_widgets s1 item orders pages of
                               Inl e \<Rightarrow> (Inl e, s1, calls)
                             | Inr related \<Rightarrow>
                                 (Inr (Render_template (edit_template s1) (edit_title s1)
                                         [(''edit'', Form_widget (route_base s1) form (edit_columns s1)
                                                      exclude_cols (edit_fieldsets s1)),
                                          (''related_lists'', related)]),
                                  s1, calls)))
              else (let form = edit_form_obj env item
                    in case get_related_list_widgets s1 item orders pages of
                         Inl e \<Rightarrow> (Inl e, s1, calls)
                       | Inr related \<Rightarrow>
                           (Inr (Render_template (edit_template s1) (edit_title s1)
                                   [(''edit'', Form_widget (route_base s1) form (edit_columns s1)
                                                exclude_cols (edit_fieldsets s1)),
                                    (''related_lists'', related)]),
                            s1, calls))))"

text \<open>\<^verbatim>\<open>GeneralView.delete\<close>.\<close>

definition gv_delete ::
    "('i, 'f) env \<Rightarrow> 'a crud_view_scheme \<Rightarrow> int \<Rightarrow> ('i, 'f) call list
     \<Rightarrow> (error + ('i, 'f) response) \<times> 'a crud_view_scheme \<times> ('i, 'f) call list" where
  "gv_delete env self pk calls =
     (let item = datamodel_get env pk;
          calls1 = pre_delete item calls;
          calls2 = datamodel_delete item calls1;
          calls3 = post_delete item calls2
      in (redirect_to (get_redirect (flask_url_for env) (req_args env) self), self, calls3))"

section \<open>Vocabulary of the statements\<close>

text \<open>
  An argument name of the form \<^verbatim>\<open>_flt_<digit>_<column>\<close>, with one decimal digit; and
  a name in which \<^verbatim>\<open>_flt_\<close>, a decimal digit and an underscore occur somewhere.
\<close>

definition flt_name :: "string \<Rightarrow> char \<Rightarrow> string \<Rightarrow> bool" where
  "flt_name k d column = (k = ''_flt_'' @ d # CHR ''_'' # column \<and> is_digit d)"

definition is_flt_name :: "string \<Rightarrow> bool" where
  "is_flt_name k = (\<exists>d column. flt_name k d column)"

definition contains_flt :: "string \<Rightarrow> bool" where
  "contains_flt s = (\<exists>pre d post. s = pre @ ''_flt_'' @ d # CHR ''_'' # post \<and> is_digit d)"

text \<open>The names sent with a request.\<close>

definition arg_names :: "multidict \<Rightarrow> string set" where
  "arg_names args = fst ` set args"

text \<open>
  A method on which \<^verbatim>\<open>expose\<close> was applied once for every pair of \<open>ds\<close>, the innermost
  decorator first.
\<close>

definition decorate :: "(string \<times> string list) list \<Rightarrow> method_attr \<Rightarrow> method_attr" where
  "decorate ds f = fold (\<lambda>(url, methods). expose url methods) ds f"

text \<open>The \<^verbatim>\<open>'fields'\<close> list of a fieldset.\<close>

definition fieldset_fields :: "fieldset \<Rightarrow> string list" where
  "fieldset_fields fs = (case map_of (snd fs) ''fields'' of None \<Rightarrow> [] | Some fl \<Rightarrow> fl)"

definition has_fields :: "fieldset \<Rightarrow> bool" where
  "has_fields fs = (map_of (snd fs) ''fields'' \<noteq> None)"

text \<open>
  The column list the specification describes: the concatenation of the fieldsets'
  fields when there are fieldsets, all columns when nothing is configured, and the
  configured list otherwise.
\<close>

definition spec_columns :: "fieldset list \<Rightarrow> string list option \<Rightarrow> string list \<Rightarrow> string list option" where
  "spec_columns fieldsets columns all_columns =
     (if fieldsets \<noteq> [] then Some (concat (map fieldset_fields fieldsets))
      else if columns = None \<or> columns = Some [] then Some all_columns
      else columns)"

text \<open>A response renders a template with a form widget that holds a form.\<close>

definition renders_form :: "string \<Rightarrow> 'f \<Rightarrow> error + ('i, 'f) response \<Rightarrow> bool" where
  "renders_form template form r =
     (\<exists>title widgets key rb cols ex fss.
        r = Inr (Render_template template title widgets) \<and>
        (key, Form_widget rb form cols ex fss) \<in> set widgets)"

subsection \<open>A small application\<close>

text \<open>
  A view over contacts, a form view and a world in which items and forms are texts:
  concrete values on which the statements below are instantiated.
\<close>

definition plain :: method_attr where
  "plain = \<lparr>urls = None, has_action = False\<rparr>"

definition contact_decls :: "(string \<times> (string \<times> string list) list \<times> method_attr) list" where
  "contact_decls =
     [(''add'', [(''/add'', [''GET'', ''POST''])], plain),
      (''list'', [(''/list/'', [''GET''])], plain),
      (''pre_add'', [], plain)]"

definition index_app :: base_app where
  "index_app = \<lparr>indexview_endpoint = Some ''IndexView'', indexview_default_view = ''index''\<rparr>"

definition contact_view :: crud_view where
  "contact_view =
     \<lparr>class_name = ''ContactView'',
      attrs = map (\<lambda>(n, ds, f). (n, decorate ds f)) contact_decls,
      baseapp = Some index_app, blueprint = None, endpoint = Some ''ContactView'',
      route_base = None, template_folder = ''templates'', static_folder = Some ''static'',
      base_permissions = None, actions = None, default_view = ''list'',
      view_filters = [(''stale'', 0, None)], search_columns = None,
      related_views = Some [\<lparr>rv_class_name = ''PhoneView'', rv_page_size = 30\<rparr>],
      list_title = ''List Contact'', add_title = ''Add Contact'', edit_title = ''Edit Contact'',
      list_columns = None, show_columns = Some [''name''], add_columns = None,
      edit_columns = None, order_columns = None, page_size = 30,
      show_fieldsets = [(Some ''Summary'', [(''fields'', [''name'', ''phone''])]),
                        (None, [(''fields'', [''address''])])],
      add_fieldsets = [], edit_fieldsets = [],
      list_template = ''list.html'', add_template = ''add.html'', edit_template = ''edit.html''\<rparr>"

definition login_view :: simple_form_view where
  "login_view =
     \<lparr>class_name = ''LoginView'', attrs = [], baseapp = Some index_app, blueprint = None,
      endpoint = Some ''LoginView'', route_base = Some ''/login'',
      template_folder = ''templates'', static_folder = Some ''static'',
      base_permissions = None, actions = None, default_view = ''this_form_get'',
      form_template = ''edit.html'', form_title = ''Login'', form_columns = None,
      form_fieldsets = None\<rparr>"

definition routes :: "string \<Rightarrow> string option" where
  "routes e =
     (if e = ''IndexView.index'' then Some ''/''
      else if e = ''ContactView.list'' then Some ''/contactview/list/''
      else None)"

definition world :: "multidict \<Rightarrow> string \<Rightarrow> bool \<Rightarrow> (string, string) env" where
  "world args m ok =
     \<lparr>req_args = args, req_method = m, flask_url_for = routes,
      form_refresh = ''login-form'', field_names = (\<lambda>f. [''user'', ''password'']),
      add_form_refresh = ''add-form'', edit_form_request = (\<lambda>item. ''edit-form''),
      edit_form_obj = (\<lambda>item. ''edit-form-of-'' @ item), search_form_refresh = ''search-form'',
      set_id = (\<lambda>f pk. f), validate_on_submit = (\<lambda>f. ok), validate = (\<lambda>f. ok),
      populate_obj = (\<lambda>f item. item @ ''+'' @ f),
      setattr = (\<lambda>item k v. item @ ''.'' @ k @ ''='' @ v),
      datamodel_obj = ''new'', datamodel_get = (\<lambda>pk. ''stored''),
      get_related_obj = (\<lambda>k v. ''related''),
      get_columns_list = [''name'', ''phone'', ''address''],
      get_order_columns_list = [''name''],
      get_relation_cols = (\<lambda>fs. []), get_filter_value = (\<lambda>fs k. None)\<rparr>"

section \<open>Searches and the arguments of a request\<close>

lemmas eval_defs = get_page_args_def get_order_args_def md_keys_def md_get_def re_findall_def
  match_lit_def rest_of_line_def newline_def py_int_opt_def py_int_def is_space_def is_digit_def
  digits_val_def digit_val_def first_match_def arg_names_def

lemmas flt_eval_defs = get_filter_args_def clear_filters_def add_filter_index_def match_flt_def

text \<open>
  A search finds nothing exactly when the pattern matches at no position of the text.
\<close>

lemma findall_from_Nil_iff:
  "findall_from m 0 s = [] \<longleftrightarrow> (\<forall>pre post. s = pre @ post \<and> post \<noteq> [] \<longrightarrow> m post = None)"
proof (induction s)
  case Nil
  then show ?case by simp
next
  case (Cons c cs)
  show ?case
  proof (cases "m (c # cs)")
    case None
    have "(\<forall>pre post. c # cs = pre @ post \<and> post \<noteq> [] \<longrightarrow> m post = None)
        \<longleftrightarrow> (\<forall>pre post. cs = pre @ post \<and> post \<noteq> [] \<longrightarrow> m post = None)"
    proof
      assume h: "\<forall>pre post. c # cs = pre @ post \<and> post \<noteq> [] \<longrightarrow> m post = None"
      show "\<forall>pre post. cs = pre @ post \<and> post \<noteq> [] \<longrightarrow> m post = None"
      proof (intro allI impI)
        fix pre post assume "cs = pre @ post \<and> post \<noteq> []"
        then have "c # cs = (c # pre) @ post \<and> post \<noteq> []" by simp
        with h show "m post = None" by blast
      qed
    next
      assume h: "\<forall>pre post. cs = pre @ post \<and> post \<noteq> [] \<longrightarrow> m post = None"
      show "\<forall>pre post. c # cs = pre @ post \<and> post \<noteq> [] \<longrightarrow> m post = None"
      proof (intro allI impI)
        fix pre post assume a: "c # cs = pre @ post \<and> post \<noteq> []"
        show "m post = None"
        proof (cases pre)
          case Nil
          with a None show ?thesis by simp
        next
          case (Cons a pre')
          with a have "cs = pre' @ post \<and> post \<noteq> []" by simp
          with h show ?thesis by blast
        qed
      qed
    qed
    with None Cons.IH show ?thesis by simp
  next
    case (Some gn)
    obtain g n where gn: "gn = (g, n)" by (cases gn)
    have "c # cs = [] @ (c # cs) \<and> c # cs \<noteq> []" by simp
    with Some have "\<not> (\<forall>pre post. c # cs = pre @ post \<and> post \<noteq> [] \<longrightarrow> m post = None)"
      by (metis option.distinct(1))
    with Some gn show ?thesis by simp
  qed
qed

lemma match_flt_Some_iff:
  "match_flt s = Some ((d, g), n) \<longleftrightarrow>
     (\<exists>r. s = ''_flt_'' @ d # CHR ''_'' # r \<and> is_digit d \<and> g = rest_of_line r \<and> n = 7 + length g)"
  by (auto simp: match_flt_def prefix_def split: list.splits)

lemma match_flt_None_iff:
  "match_flt s = None \<longleftrightarrow> \<not> (\<exists>d r. s = ''_flt_'' @ d # CHR ''_'' # r \<and> is_digit d)"
  by (auto simp: match_flt_def prefix_def split: list.splits)

lemma first_match_None_iff:
  "first_match m s = None \<longleftrightarrow> (\<forall>pre post. s = pre @ post \<and> post \<noteq> [] \<longrightarrow> m post = None)"
proof -
  have "first_match m s = None \<longleftrightarrow> findall_from m 0 s = []"
    by (simp add: first_match_def re_findall_def split: list.splits)
  then show ?thesis by (simp only: findall_from_Nil_iff)
qed

lemma first_match_flt_None_iff: "first_match match_flt s = None \<longleftrightarrow> \<not> contains_flt s"
proof
  assume h: "first_match match_flt s = None"
  show "\<not> contains_flt s"
  proof
    assume "contains_flt s"
    then obtain pre d post where s: "s = pre @ ''_flt_'' @ d # CHR ''_'' # post" and d: "is_digit d"
      by (auto simp: contains_flt_def)
    then have "s = pre @ (''_flt_'' @ d # CHR ''_'' # post) \<and> ''_flt_'' @ d # CHR ''_'' # post \<noteq> []" by simp
    with h have "match_flt (''_flt_'' @ d # CHR ''_'' # post) = None"
      unfolding first_match_None_iff by blast
    with d show False unfolding match_flt_None_iff by blast
  qed
next
  assume h: "\<not> contains_flt s"
  show "first_match match_flt s = None"
    unfolding first_match_None_iff
  proof (intro allI impI)
    fix pre post assume a: "s = pre @ post \<and> post \<noteq> []"
    show "match_flt post = None"
    proof (rule ccontr)
      assume "match_flt post \<noteq> None"
      then obtain d r where "post = ''_flt_'' @ d # CHR ''_'' # r" "is_digit d"
        unfolding match_flt_None_iff by blast
      with a have "s = pre @ ''_flt_'' @ d # CHR ''_'' # r \<and> is_digit d" by simp
      with h show False unfolding contains_flt_def by blast
    qed
  qed
qed

lemma py_int_digit:
  assumes "is_digit d"
  shows "py_int [d] = Inr (int (digit_val d))"
proof -
  from assms have "d \<noteq> CHR ''-''" "d \<noteq> CHR ''+''" "\<not> is_space d"
    by (auto simp: is_digit_def is_space_def)
  with assms show ?thesis
    by (simp add: py_int_def digits_val_def Let_def)
qed

lemma filter_loop_eq:
  "filter_loop args ks fs =
     fs @ concat (map (\<lambda>k. case first_match match_flt k of
                               None \<Rightarrow> []
                             | Some (d, col) \<Rightarrow> [(col, digit_val d, md_get args k)]) ks)"
proof (induction ks arbitrary: fs)
  case Nil
  then show ?case by simp
next
  case (Cons a ks)
  show ?case
  proof (cases "re_findall match_flt a")
    case Nil
    then show ?thesis by (simp add: Cons.IH first_match_def)
  next
    case (Cons g gs)
    then show ?thesis
      by (cases g) (simp add: Cons.IH first_match_def add_filter_index_def)
  qed
qed

lemma is_flt_name_iff: "is_flt_name k \<longleftrightarrow> match_flt k \<noteq> None"
  unfolding match_flt_None_iff by (auto simp: is_flt_name_def flt_name_def)

lemma first_match_flt_name:
  assumes "flt_name k d column"
  shows "first_match match_flt k = Some (d, rest_of_line column)"
proof -
  from assms have k: "k = CHR ''_'' # (''flt_'' @ d # CHR ''_'' # column)" and d: "is_digit d"
    by (simp_all add: flt_name_def)
  have m: "match_flt k = Some ((d, rest_of_line column), 7 + length (rest_of_line column))"
    unfolding match_flt_Some_iff using assms by (auto simp: flt_name_def)
  from k obtain c cs where "k = c # cs" by blast
  with m show ?thesis
    by (simp add: first_match_def re_findall_def)
qed

lemma flt_name_contains: "is_flt_name k \<Longrightarrow> contains_flt k"
  by (auto simp: is_flt_name_def flt_name_def contains_flt_def intro: exI [of _ "[]"])

lemma filters_of_names:
  "(\<forall>k \<in> set ks. contains_flt k \<longrightarrow> is_flt_name k) \<Longrightarrow>
   list_all2 (\<lambda>k f. \<exists>d column. flt_name k d column
                        \<and> f = (rest_of_line column, digit_val d, md_get args k))
     (filter is_flt_name ks)
     (concat (map (\<lambda>k. case first_match match_flt k of
                               None \<Rightarrow> []
                             | Some (d, col) \<Rightarrow> [(col, digit_val d, md_get args k)]) ks))"
proof (induction ks)
  case Nil
  then show ?case by simp
next
  case (Cons k ks)
  then have ih: "list_all2 (\<lambda>k f. \<exists>d column. flt_name k d column
                        \<and> f = (rest_of_line column, digit_val d, md_get args k))
     (filter is_flt_name ks)
     (concat (map (\<lambda>k. case first_match match_flt k of
                               None \<Rightarrow> []
                             | Some (d, col) \<Rightarrow> [(col, digit_val d, md_get args k)]) ks))"
    by simp
  show ?case
  proof (cases "is_flt_name k")
    case True
    then obtain d column where f: "flt_name k d column" by (auto simp: is_flt_name_def)
    from first_match_flt_name [OF f] True f ih show ?thesis by auto
  next
    case False
    with Cons.prems have "\<not> contains_flt k" by auto
    then have "first_match match_flt k = None" by (simp add: first_match_flt_None_iff)
    with False ih show ?thesis by simp
  qed
qed

lemma md_get_item:
  assumes "distinct (md_keys args)" and "(k, vs) \<in> set args"
  shows "md_get args k = (case vs of [] \<Rightarrow> None | v # _ \<Rightarrow> Some v)"
proof -
  from assms have "map_of args k = Some vs" by (simp add: md_keys_def)
  then show ?thesis by (simp add: md_get_def)
qed

text \<open>
C4 (the code departs from its documentation). The request
  \<^verbatim>\<open>?page_V=1&homepage_url=abc\<close> carries one argument of the form
  \<^verbatim>\<open>page_<VIEW_NAME>=<PAGE_NUMBER>\<close>, with a decimal value, and one argument that is
  named in another way. By its documentation \<^verbatim>\<open>_get_page_args\<close> returns the
  dictionary that maps \<^verbatim>\<open>V\<close> to 1, as it does when \<^verbatim>\<open>page_V=1\<close> is sent alone. The
  search \<^verbatim>\<open>'page_(.*)'\<close> is not anchored at the start of the name, finds \<^verbatim>\<open>page_\<close> in
  \<^verbatim>\<open>homepage_url\<close>, and \<^verbatim>\<open>int('abc')\<close> raises ValueError, in whichever order the
  dictionary iterates; a filter on a column \<^verbatim>\<open>page_title\<close> does the same.
\<close>

theorem get_page_args_raises:
  "get_page_args [(''page_V'', [''1'']), (''homepage_url'', [''abc''])] = Inl ValueError
   \<and> get_page_args [(''homepage_url'', [''abc'']), (''page_V'', [''1''])] = Inl ValueError
   \<and> get_page_args [(''page_V'', [''1'']), (''_flt_0_page_title'', [''abc''])] = Inl ValueError
   \<and> get_page_args [(''page_V'', [''1''])] = Inr [''V'' \<mapsto> 1]"
  by (simp add: eval_defs)

text \<open>
C5 (the code departs from its documentation). The request
  \<^verbatim>\<open>?_oc_V=name&_od_V=asc&x_oc_W=c\<close> carries the pair for the view \<^verbatim>\<open>V\<close> and one
  argument that is named in another way. By its documentation \<^verbatim>\<open>_get_order_args\<close>
  returns the dictionary with the one entry for \<^verbatim>\<open>V\<close>, as it does when the pair is
  sent alone. The search \<^verbatim>\<open>'_oc_(.*)'\<close> is not anchored at the start of the name, finds
  \<^verbatim>\<open>_oc_\<close> in \<^verbatim>\<open>x_oc_W\<close>, and the dictionary has a second entry, for \<^verbatim>\<open>W\<close>, in
  whichever order the dictionary iterates.
\<close>

theorem get_order_args_stray_entry:
  "get_order_args [(''_oc_V'', [''name'']), (''_od_V'', [''asc'']), (''x_oc_W'', [''c''])]
     = [''V'' \<mapsto> (Some ''name'', Some ''asc''), ''W'' \<mapsto> (Some ''c'', None)]
   \<and> get_order_args [(''x_oc_W'', [''c'']), (''_od_V'', [''asc'']), (''_oc_V'', [''name''])] ''W''
     = Some (Some ''c'', None)
   \<and> get_order_args [(''_oc_V'', [''name'']), (''_od_V'', [''asc''])]
     = [''V'' \<mapsto> (Some ''name'', Some ''asc'')]"
  by (simp add: eval_defs)

text \<open>
C1 (amended). Take a request (a dictionary, so its names are distinct) in which
  \<^verbatim>\<open>_flt_\<close>, a decimal digit and an underscore occur in a name only at its start.
  After \<^verbatim>\<open>_get_filter_args\<close> the filter collection holds, whatever it held before,
  exactly one filter for every name of the form \<^verbatim>\<open>_flt_<digit>_<column>\<close>, in the
  order in which the dictionary iterates over these names, and no other filter: the
  filter of a name records the column up to the end of its line, the digit as the index
  and the first value sent under the name.
\<close>

theorem get_filter_args_filters:
  assumes "distinct (md_keys args)"
    and "\<forall>k \<in> arg_names args. contains_flt k \<longrightarrow> is_flt_name k"
  shows "list_all2 (\<lambda>k f. \<exists>d column. flt_name k d column
                        \<and> f = (rest_of_line column, digit_val d, md_get args k))
           (filter is_flt_name (md_keys args)) (get_filter_args args fs)
         \<and> distinct (filter is_flt_name (md_keys args))
         \<and> set (filter is_flt_name (md_keys args)) = {k \<in> arg_names args. is_flt_name k}
         \<and> (\<forall>kv \<in> set args. md_get args (fst kv) = (case snd kv of [] \<Rightarrow> None | v # _ \<Rightarrow> Some v))"
proof (intro conjI)
  have "get_filter_args args fs =
      concat (map (\<lambda>k. case first_match match_flt k of
                               None \<Rightarrow> []
                             | Some (d, col) \<Rightarrow> [(col, digit_val d, md_get args k)]) (md_keys args))"
    by (simp add: get_filter_args_def clear_filters_def filter_loop_eq)
  moreover from assms(2) have "\<forall>k \<in> set (md_keys args). contains_flt k \<longrightarrow> is_flt_name k"
    by (simp add: md_keys_def arg_names_def)
  ultimately show "list_all2 (\<lambda>k f. \<exists>d column. flt_name k d column
                        \<and> f = (rest_of_line column, digit_val d, md_get args k))
           (filter is_flt_name (md_keys args)) (get_filter_args args fs)"
    using filters_of_names [of "md_keys args" args] by simp
next
  from assms(1) show "distinct (filter is_flt_name (md_keys args))" by simp
next
  show "set (filter is_flt_name (md_keys args)) = {k \<in> arg_names args. is_flt_name k}"
    by (auto simp: md_keys_def arg_names_def)
next
  show "\<forall>kv \<in> set args. md_get args (fst kv) = (case snd kv of [] \<Rightarrow> None | v # _ \<Rightarrow> Some v)"
  proof
    fix kv assume "kv \<in> set args"
    then have "(fst kv, snd kv) \<in> set args" by simp
    from md_get_item [OF assms(1) this] show "md_get args (fst kv) = (case snd kv of [] \<Rightarrow> None | v # _ \<Rightarrow> Some v)" .
  qed
qed

theorem get_filter_args_filters_witness:
  "get_filter_args [(''_flt_1_name'', [''v'', ''w'']), (''page_V'', [''2'']), (''_flt_12_x'', [''y''])]
     [(''old'', 0, None)] = [(''name'', 1, Some ''v'')]"
proof -
  let ?args = "[(''_flt_1_name'', [''v'', ''w'']), (''page_V'', [''2'']), (''_flt_12_x'', [''y''])]"
  have n1: "is_flt_name ''_flt_1_name''" and n2: "\<not> is_flt_name ''page_V''"
    and n3: "\<not> is_flt_name ''_flt_12_x''"
    by (simp_all add: is_flt_name_iff match_flt_def is_digit_def)
  have c2: "\<not> contains_flt ''page_V''" and c3: "\<not> contains_flt ''_flt_12_x''"
    using first_match_flt_None_iff [of "''page_V''"] first_match_flt_None_iff [of "''_flt_12_x''"]
    by (simp_all add: eval_defs flt_eval_defs)
  have d: "distinct (md_keys ?args)" by (simp add: md_keys_def)
  have a: "\<forall>k \<in> arg_names ?args. contains_flt k \<longrightarrow> is_flt_name k"
    using n1 c2 c3 by (simp add: arg_names_def)
  have ks: "filter is_flt_name (md_keys ?args) = [''_flt_1_name'']"
    using n1 n2 n3 by (simp add: md_keys_def)
  from get_filter_args_filters [OF d a, of "[(''old'', 0, None)]"] ks
  have "list_all2 (\<lambda>k f. \<exists>d column. flt_name k d column
                        \<and> f = (rest_of_line column, digit_val d, md_get ?args k))
           [''_flt_1_name''] (get_filter_args ?args [(''old'', 0, None)])" by simp
  then obtain d column where "flt_name ''_flt_1_name'' d column"
    and "get_filter_args ?args [(''old'', 0, None)]
           = [(rest_of_line column, digit_val d, md_get ?args ''_flt_1_name'')]"
    by (auto simp: list_all2_Cons1)
  then show ?thesis by (auto simp: flt_name_def eval_defs)
qed

text \<open>
  As first written, C1 has one filter for every argument \<^verbatim>\<open>_flt_<index>_<column>\<close> and
  none for any other. The argument \<^verbatim>\<open>_flt_12_name=v\<close>, whose index has two digits, adds
  no filter, and the two arguments \<^verbatim>\<open>_flt_1_name=v\<close> and \<^verbatim>\<open>_flt_1_name=w\<close> add one
  filter, with the first value. The search is not anchored either, as in the two other
  parsers: \<^verbatim>\<open>x_flt_1_name=v\<close> adds a filter. The statement above leaves such names out.
\<close>

theorem get_filter_args_counterexample:
  "get_filter_args [(''_flt_12_name'', [''v''])] [] = []
   \<and> get_filter_args [(''_flt_1_name'', [''v'', ''w''])] [] = [(''name'', 1, Some ''v'')]
   \<and> get_filter_args [(''x_flt_1_name'', [''v''])] [] = [(''name'', 1, Some ''v'')]"
  by (simp add: eval_defs flt_eval_defs)

section \<open>Redirect target\<close>

text \<open>
C10. The target \<^verbatim>\<open>_get_redirect\<close> computes is the (first) value of the request's
  \<^verbatim>\<open>next\<close> argument whenever it is present and not empty, whatever that value is.
  When it is absent or empty the target is the URL of the view's default view if that
  endpoint resolves, and, if it does not, the URL of the index view of the application.
\<close>

theorem get_redirect_target:
  "(\<forall>n. md_get args ''next'' = Some n \<and> n \<noteq> [] \<longrightarrow> get_redirect url_for args self = Inr n)
   \<and> ((md_get args ''next'' = None \<or> md_get args ''next'' = Some []) \<longrightarrow>
        (\<forall>u. url_for (py_str (endpoint self) @ ''.'' @ default_view self) = Some u
              \<longrightarrow> get_redirect url_for args self = Inr u)
      \<and> (\<forall>app u. url_for (py_str (endpoint self) @ ''.'' @ default_view self) = None
              \<and> baseapp self = Some app
              \<and> url_for (py_str (indexview_endpoint app) @ ''.'' @ indexview_default_view app) = Some u
              \<longrightarrow> get_redirect url_for args self = Inr u))"
  by (auto simp: get_redirect_def)

theorem get_redirect_target_witness:
  "get_redirect routes [(''next'', [''http://elsewhere.example/''])] contact_view
     = Inr ''http://elsewhere.example/''
   \<and> get_redirect routes [(''next'', [''''])] contact_view = Inr ''/contactview/list/''
   \<and> get_redirect routes [] login_view = Inr ''/''"
proof -
  have a: "get_redirect routes [(''next'', [''http://elsewhere.example/''])] contact_view
     = Inr ''http://elsewhere.example/''"
    using get_redirect_target [of "[(''next'', [''http://elsewhere.example/''])]" routes contact_view]
    by (simp add: md_get_def)
  have b: "get_redirect routes [(''next'', [''''])] contact_view = Inr ''/contactview/list/''"
    using get_redirect_target [of "[(''next'', [''''])]" routes contact_view]
    by (simp add: md_get_def routes_def py_str_def contact_view_def)
  have c: "get_redirect routes [] login_view = Inr ''/''"
    using get_redirect_target [of "[]" routes login_view]
    by (simp add: md_get_def routes_def py_str_def login_view_def index_app_def)
  from a b c show ?thesis by simp
qed

section \<open>Permissions and URL rules\<close>

lemma action_loop_no_action:
  "(\<forall>na \<in> set as. \<not> has_action (snd na)) \<Longrightarrow> action_loop as self = Inr self"
  by (induction as) auto

lemma action_loop_raises:
  "na \<in> set as \<Longrightarrow> has_action (snd na) \<Longrightarrow> action_loop as self = Inl AttributeError"
  by (induction as) auto

text \<open>
C9. When \<^verbatim>\<open>base_permissions\<close> is None at construction and no attribute of the view
  carries \<^verbatim>\<open>_action\<close>, \<^verbatim>\<open>BaseView.__init__\<close> returns and has set
  \<^verbatim>\<open>base_permissions\<close> to the list of \<^verbatim>\<open>'can_'\<close> + name, one for every attribute
  that carries \<^verbatim>\<open>_urls\<close>, in the order of \<^verbatim>\<open>dir(self)\<close>.
\<close>

theorem base_view_init_permissions:
  assumes "base_permissions self = None"
    and "\<forall>na \<in> set (attrs self). \<not> has_action (snd na)"
  shows "\<exists>v. base_view_init self = Inr v \<and>
           base_permissions v =
             Some (map (\<lambda>na. ''can_'' @ fst na) (filter (\<lambda>na. urls (snd na) \<noteq> None) (attrs self)))"
proof -
  let ?v = "self\<lparr>base_permissions :=
                      Some (map (\<lambda>(attr_name, attr). ''can_'' @ attr_name)
                              (filter (\<lambda>(attr_name, attr). urls attr \<noteq> None) (attrs self))),
                   actions := (if actions self = None \<or> actions self = Some []
                               then Some [] else actions self)\<rparr>"
  from assms(2) have "action_loop (attrs self) ?v = Inr ?v"
    by (rule action_loop_no_action)
  with assms(1) have "base_view_init self = Inr ?v"
    by (simp add: base_view_init_def)
  moreover have "base_permissions ?v =
      Some (map (\<lambda>na. ''can_'' @ fst na) (filter (\<lambda>na. urls (snd na) \<noteq> None) (attrs self)))"
    by (simp add: case_prod_unfold)
  ultimately show ?thesis by blast
qed

lemma urls_expose:
  "urls (expose url methods f) = Some ((case urls f of None \<Rightarrow> [] | Some us \<Rightarrow> us) @ [(url, methods)])"
  by (cases "urls f") (simp_all add: expose_def)

lemma has_action_expose: "has_action (expose url methods f) = has_action f"
  by (simp add: expose_def Let_def)

lemma urls_decorate_Some:
  "urls f = Some us \<Longrightarrow> urls (decorate ds f) = Some (us @ ds)"
proof (induction ds arbitrary: f us)
  case Nil
  then show ?case by (simp add: decorate_def)
next
  case (Cons d ds)
  obtain url methods where d: "d = (url, methods)" by (cases d)
  from Cons.prems have "urls (expose url methods f) = Some (us @ [(url, methods)])"
    by (simp add: urls_expose)
  from Cons.IH [OF this] d show ?case by (simp add: decorate_def)
qed

lemma urls_decorate:
  assumes "urls f = None"
  shows "urls (decorate ds f) = (if ds = [] then None else Some ds)"
proof (cases ds)
  case Nil
  with assms show ?thesis by (simp add: decorate_def)
next
  case (Cons d ds')
  obtain url methods where d: "d = (url, methods)" by (cases d)
  from assms have "urls (expose url methods f) = Some [(url, methods)]"
    by (simp add: urls_expose)
  from urls_decorate_Some [OF this, of ds'] Cons d show ?thesis
    by (simp add: decorate_def)
qed

lemma has_action_decorate: "has_action (decorate ds f) = has_action f"
proof (induction ds arbitrary: f)
  case Nil
  then show ?case by (simp add: decorate_def)
next
  case (Cons d ds)
  obtain url methods where d: "d = (url, methods)" by (cases d)
  from Cons.IH [of "expose url methods f"] d show ?case
    by (simp add: decorate_def has_action_expose)
qed

lemma add_url_rules_eq:
  "add_url_rules n us bp = bp\<lparr>url_rules := url_rules bp @ map (\<lambda>(url, methods). (url, n, methods)) us\<rparr>"
  by (induction us arbitrary: bp) auto

lemma register_urls_eq:
  "register_urls as bp =
     bp\<lparr>url_rules := url_rules bp @
           concat (map (\<lambda>(n, a). case urls a of
                                    None \<Rightarrow> []
                                  | Some us \<Rightarrow> map (\<lambda>(url, methods). (url, n, methods)) us) as)\<rparr>"
proof (induction as arbitrary: bp)
  case Nil
  then show ?case by simp
next
  case (Cons na as)
  obtain n a where na: "na = (n, a)" by (cases na)
  show ?case
    by (cases "urls a") (simp_all add: na Cons.IH add_url_rules_eq)
qed

text \<open>
C8. Let the attributes of a view be methods on which pairs of a URL and methods were
  declared with \<^verbatim>\<open>expose\<close> (none, for an attribute that is not exposed). Then
  \<^verbatim>\<open>create_blueprint\<close> produces a blueprint whose URL prefix is the view's
  \<^verbatim>\<open>route_base\<close>, or \<^verbatim>\<open>'/'\<close> and the lower-cased class name when that is None, and
  whose rules are exactly the declared pairs, one rule for each, under the name of the
  attribute that declared it.
\<close>

theorem create_blueprint_rules:
  assumes "attrs self = map (\<lambda>(n, ds, f). (n, decorate ds f)) decls"
    and "\<forall>d \<in> set decls. urls (snd (snd d)) = None"
  shows "\<exists>bp. blueprint (create_blueprint self app endpoint_arg static_folder_arg) = Some bp
           \<and> url_prefix bp = (case route_base self of
                                 None \<Rightarrow> ''/'' @ lower (class_name self)
                               | Some r \<Rightarrow> r)
           \<and> url_rules bp =
               concat (map (\<lambda>(n, ds, f). map (\<lambda>(url, methods). (url, n, methods)) ds) decls)"
proof -
  have "concat (map (\<lambda>(n, a). case urls a of
                                    None \<Rightarrow> []
                                  | Some us \<Rightarrow> map (\<lambda>(url, methods). (url, n, methods)) us)
                  (map (\<lambda>(n, ds, f). (n, decorate ds f)) decls))
        = concat (map (\<lambda>(n, ds, f). map (\<lambda>(url, methods). (url, n, methods)) ds) decls)"
    using assms(2)
  proof (induction decls)
    case Nil
    then show ?case by simp
  next
    case (Cons d decls)
    obtain n ds f where d: "d = (n, ds, f)" by (cases d)
    with Cons.prems have "urls f = None" by simp
    then have "urls (decorate ds f) = (if ds = [] then None else Some ds)"
      by (rule urls_decorate)
    with Cons d show ?case by simp
  qed
  with assms(1) show ?thesis
    by (simp add: create_blueprint_def Let_def register_urls_eq)
qed

theorem create_blueprint_rules_witness:
  "\<exists>bp. blueprint (create_blueprint contact_view index_app None None) = Some bp
     \<and> url_prefix bp = ''/contactview''
     \<and> url_rules bp = [(''/add'', ''add'', [''GET'', ''POST'']), (''/list/'', ''list'', [''GET''])]"
proof -
  have a: "attrs contact_view = map (\<lambda>(n, ds, f). (n, decorate ds f)) contact_decls"
    by (simp add: contact_view_def)
  have b: "\<forall>d \<in> set contact_decls. urls (snd (snd d)) = None"
    by (simp add: contact_decls_def plain_def)
  have c: "route_base contact_view = None" "class_name contact_view = ''ContactView''"
    by (simp_all add: contact_view_def)
  have l: "lower ''ContactView'' = ''contactview''" by code_simp
  from create_blueprint_rules [OF a b, of index_app None None] show ?thesis
    by (simp add: c l contact_decls_def)
qed

theorem base_view_init_permissions_witness:
  "\<exists>v. base_view_init contact_view = Inr v
      \<and> base_permissions v = Some [''can_add'', ''can_list'']"
proof -
  have u: "map (\<lambda>na. urls (snd na)) (attrs contact_view)
      = [Some [(''/add'', [''GET'', ''POST''])], Some [(''/list/'', [''GET''])], None]"
    by (simp add: contact_view_def contact_decls_def plain_def urls_decorate)
  have a: "base_permissions contact_view = None" by (simp add: contact_view_def)
  have b: "\<forall>na \<in> set (attrs contact_view). \<not> has_action (snd na)"
    by (simp add: contact_view_def contact_decls_def plain_def has_action_decorate)
  have c: "map (\<lambda>na. ''can_'' @ fst na) (filter (\<lambda>na. urls (snd na) \<noteq> None) (attrs contact_view))
      = [''can_add'', ''can_list'']"
    by (simp add: contact_view_def contact_decls_def plain_def urls_decorate)
  from base_view_init_permissions [OF a b] c show ?thesis by simp
qed

section \<open>Column lists after initialisation\<close>

lemma fieldset_loop_eq:
  "(\<forall>fs \<in> set fss. has_fields fs) \<Longrightarrow>
   fieldset_loop fss cols = Inr (cols @ concat (map fieldset_fields fss))"
  by (induction fss arbitrary: cols) (auto simp: has_fields_def fieldset_fields_def)

lemma fieldset_loop_InrD:
  "fieldset_loop fss cols = Inr cs \<Longrightarrow> cs = cols @ concat (map fieldset_fields fss)"
proof (induction fss arbitrary: cols)
  case Nil
  then show ?case by simp
next
  case (Cons fs fss)
  from Cons.prems obtain fl where f: "map_of (snd fs) ''fields'' = Some fl"
    and l: "fieldset_loop fss (cols @ fl) = Inr cs"
    by (auto split: option.splits)
  from Cons.IH [OF l] f show ?case by (simp add: fieldset_fields_def)
qed

lemma init_columns_InrD:
  "init_columns fss columns list_cols = Inr cs \<Longrightarrow> cs = spec_columns fss columns list_cols"
  by (auto simp: init_columns_def spec_columns_def split: if_splits sum.splits
           dest: fieldset_loop_InrD)

lemma init_columns_returns:
  "(\<forall>fs \<in> set fss. has_fields fs) \<Longrightarrow>
   init_columns fss columns list_cols = Inr (spec_columns fss columns list_cols)"
  by (simp add: init_columns_def spec_columns_def fieldset_loop_eq)

text \<open>
C6. \<^verbatim>\<open>_init_vars\<close> returns when it has a list column to fall back on (list columns
  are configured or the datamodel has an order column) and every fieldset holds a
  \<^verbatim>\<open>'fields'\<close> list. Whenever it returns, each of the show, add and edit column lists
  (and the form columns of a SimpleFormView) is the one the specification describes:
  with a non-empty fieldset list the concatenation, in fieldset order, of the fieldsets'
  fields, whatever column list was configured; with no fieldsets and no columns all
  columns of the datamodel (of the form, for a SimpleFormView).
\<close>

theorem init_vars_columns:
  "(((list_columns self \<noteq> None \<and> list_columns self \<noteq> Some []) \<or> get_order_columns_list env \<noteq> [])
      \<and> (\<forall>fs \<in> set (show_fieldsets self @ add_fieldsets self @ edit_fieldsets self). has_fields fs)
     \<longrightarrow> (\<exists>v. crud_init_vars env self = Inr v))
   \<and> (\<forall>v. crud_init_vars env self = Inr v \<longrightarrow>
        show_columns v = spec_columns (show_fieldsets self) (show_columns self) (get_columns_list env)
      \<and> add_columns v = spec_columns (add_fieldsets self) (add_columns self) (get_columns_list env)
      \<and> edit_columns v = spec_columns (edit_fieldsets self) (edit_columns self) (get_columns_list env))
   \<and> ((\<forall>fs \<in> set (case form_fieldsets fv of None \<Rightarrow> [] | Some fss \<Rightarrow> fss). has_fields fs)
     \<longrightarrow> (\<exists>v. simple_init_vars env fv = Inr v))
   \<and> (\<forall>v. simple_init_vars env fv = Inr v \<longrightarrow>
        form_columns v = spec_columns (case form_fieldsets fv of None \<Rightarrow> [] | Some fss \<Rightarrow> fss)
                           (form_columns fv) (field_names env (form_refresh env)))"
proof (intro conjI allI impI)
  assume a: "((list_columns self \<noteq> None \<and> list_columns self \<noteq> Some []) \<or> get_order_columns_list env \<noteq> [])
      \<and> (\<forall>fs \<in> set (show_fieldsets self @ add_fieldsets self @ edit_fieldsets self). has_fields fs)"
  then have "\<forall>fs \<in> set (show_fieldsets self). has_fields fs"
    "\<forall>fs \<in> set (add_fieldsets self). has_fields fs"
    "\<forall>fs \<in> set (edit_fieldsets self). has_fields fs" by auto
  with a show "\<exists>v. crud_init_vars env self = Inr v"
    by (auto simp: crud_init_vars_def Let_def init_columns_returns)
next
  fix v assume r: "crud_init_vars env self = Inr v"
  then show "show_columns v = spec_columns (show_fieldsets self) (show_columns self) (get_columns_list env)"
    by (auto simp: crud_init_vars_def Let_def split: if_splits sum.splits dest: init_columns_InrD)
  from r show "add_columns v = spec_columns (add_fieldsets self) (add_columns self) (get_columns_list env)"
    by (auto simp: crud_init_vars_def Let_def split: if_splits sum.splits dest: init_columns_InrD)
  from r show "edit_columns v = spec_columns (edit_fieldsets self) (edit_columns self) (get_columns_list env)"
    by (auto simp: crud_init_vars_def Let_def split: if_splits sum.splits dest: init_columns_InrD)
next
  assume "\<forall>fs \<in> set (case form_fieldsets fv of None \<Rightarrow> [] | Some fss \<Rightarrow> fss). has_fields fs"
  then show "\<exists>v. simple_init_vars env fv = Inr v"
    by (auto simp: simple_init_vars_def Let_def init_columns_returns split: option.splits)
next
  fix v assume "simple_init_vars env fv = Inr v"
  then show "form_columns v = spec_columns (case form_fieldsets fv of None \<Rightarrow> [] | Some fss \<Rightarrow> fss)
                           (form_columns fv) (field_names env (form_refresh env))"
    by (auto simp: simple_init_vars_def Let_def spec_columns_def
             split: if_splits sum.splits option.splits dest!: init_columns_InrD)
qed

theorem init_vars_columns_witness:
  "(\<exists>v. crud_init_vars (world [] ''GET'' True) contact_view = Inr v
       \<and> show_columns v = Some [''name'', ''phone'', ''address'']
       \<and> add_columns v = Some [''name'', ''phone'', ''address''])
   \<and> (\<exists>v. simple_init_vars (world [] ''GET'' True) login_view = Inr v
       \<and> form_columns v = Some [''user'', ''password''])"
proof -
  let ?env = "world [] ''GET'' True"
  note t = init_vars_columns [of contact_view ?env login_view]
  have h1: "((list_columns contact_view \<noteq> None \<and> list_columns contact_view \<noteq> Some [])
               \<or> get_order_columns_list ?env \<noteq> [])
      \<and> (\<forall>fs \<in> set (show_fieldsets contact_view @ add_fieldsets contact_view
                        @ edit_fieldsets contact_view). has_fields fs)"
    by (simp add: contact_view_def world_def has_fields_def)
  with t obtain v where v: "crud_init_vars ?env contact_view = Inr v" by blast
  with t have "show_columns v = spec_columns (show_fieldsets contact_view)
                  (show_columns contact_view) (get_columns_list ?env)"
    and "add_columns v = spec_columns (add_fieldsets contact_view)
                  (add_columns contact_view) (get_columns_list ?env)" by blast+
  then have c: "show_columns v = Some [''name'', ''phone'', ''address'']"
    "add_columns v = Some [''name'', ''phone'', ''address'']"
    by (simp_all add: contact_view_def world_def spec_columns_def fieldset_fields_def)
  have h2: "\<forall>fs \<in> set (case form_fieldsets login_view of None \<Rightarrow> [] | Some fss \<Rightarrow> fss). has_fields fs"
    by (simp add: login_view_def)
  with t obtain w where w: "simple_init_vars ?env login_view = Inr w" by blast
  with t have "form_columns w = spec_columns (case form_fieldsets login_view of None \<Rightarrow> [] | Some fss \<Rightarrow> fss)
                           (form_columns login_view) (field_names ?env (form_refresh ?env))" by blast
  then have "form_columns w = Some [''user'', ''password'']"
    by (simp add: login_view_def world_def spec_columns_def)
  with v c w show ?thesis by blast
qed

section \<open>The handlers\<close>

lemma get_redirect_view_filters:
  "get_redirect url_for args (self\<lparr>view_filters := fs\<rparr>) = get_redirect url_for args self"
  by (simp add: get_redirect_def Let_def split: option.splits)

lemmas call_defs = pre_add_def datamodel_add_def post_add_def pre_update_def datamodel_edit_def
  post_update_def pre_delete_def datamodel_delete_def post_delete_def form_post_def

text \<open>
C3. The calls a handler adds to those made before it. \<^verbatim>\<open>add\<close> adds, when the form
  validates, \<^verbatim>\<open>pre_add\<close>, \<^verbatim>\<open>datamodel.add\<close> and \<^verbatim>\<open>post_add\<close>, in this order and on
  the new item (the populated new object, with its related objects set), and nothing
  when validation fails. \<^verbatim>\<open>edit\<close> adds \<^verbatim>\<open>pre_update\<close>, \<^verbatim>\<open>datamodel.edit\<close> and
  \<^verbatim>\<open>post_update\<close>, in this order and on the updated item, when it validates the form
  (the request is a POST whose page arguments were parsed) and the form validates, and
  nothing otherwise. \<^verbatim>\<open>delete\<close> always adds \<^verbatim>\<open>pre_delete\<close>, \<^verbatim>\<open>datamodel.delete\<close> and
  \<^verbatim>\<open>post_delete\<close>, in this order, on the item it fetched.
\<close>

theorem hooks_bracket_writes:
  "snd (snd (gv_add env self calls)) =
     (if validate_on_submit env (add_form_refresh env)
      then (let fs = get_filter_args (req_args env) (view_filters self);
                item = set_related env fs (get_relation_cols env fs)
                         (populate_obj env (add_form_refresh env) (datamodel_obj env))
            in calls @ [Pre_add item, Datamodel_add item, Post_add item])
      else calls)
   \<and> snd (snd (gv_edit env self pk calls)) =
     (let form = set_id env (edit_form_request env (datamodel_get env pk)) pk
      in if (\<exists>pages. get_page_args (req_args env) = Inr pages)
            \<and> req_method env = ''POST'' \<and> validate env form
         then (let fs = get_filter_args (req_args env) (view_filters self);
                   item = set_related env fs (get_relation_cols env fs)
                            (populate_obj env form (datamodel_get env pk))
               in calls @ [Pre_update item, Datamodel_edit item, Post_update item])
         else calls)
   \<and> snd (snd (gv_delete env self pk calls)) =
     (let item = datamodel_get env pk
      in calls @ [Pre_delete item, Datamodel_delete item, Post_delete item])"
proof (intro conjI)
  show "snd (snd (gv_add env self calls)) =
     (if validate_on_submit env (add_form_refresh env)
      then (let fs = get_filter_args (req_args env) (view_filters self);
                item = set_related env fs (get_relation_cols env fs)
                         (populate_obj env (add_form_refresh env) (datamodel_obj env))
            in calls @ [Pre_add item, Datamodel_add item, Post_add item])
      else calls)"
    by (simp add: gv_add_def Let_def call_defs)
next
  show "snd (snd (gv_edit env self pk calls)) =
     (let form = set_id env (edit_form_request env (datamodel_get env pk)) pk
      in if (\<exists>pages. get_page_args (req_args env) = Inr pages)
            \<and> req_method env = ''POST'' \<and> validate env form
         then (let fs = get_filter_args (req_args env) (view_filters self);
                   item = set_related env fs (get_relation_cols env fs)
                            (populate_obj env form (datamodel_get env pk))
               in calls @ [Pre_update item, Datamodel_edit item, Post_update item])
         else calls)"
    by (cases "get_page_args (req_args env)")
       (simp_all add: gv_edit_def Let_def call_defs split: sum.splits)
next
  show "snd (snd (gv_delete env self pk calls)) =
     (let item = datamodel_get env pk
      in calls @ [Pre_delete item, Datamodel_delete item, Post_delete item])"
    by (simp add: gv_delete_def Let_def call_defs)
qed

lemma world_simps:
  "req_args (world a m ok) = a"
  "req_method (world a m ok) = m"
  "flask_url_for (world a m ok) = routes"
  "form_refresh (world a m ok) = ''login-form''"
  "add_form_refresh (world a m ok) = ''add-form''"
  "edit_form_request (world a m ok) item = ''edit-form''"
  "set_id (world a m ok) f pk = f"
  "validate_on_submit (world a m ok) f = ok"
  "validate (world a m ok) f = ok"
  "populate_obj (world a m ok) f item = item @ ''+'' @ f"
  "datamodel_obj (world a m ok) = ''new''"
  "datamodel_get (world a m ok) pk = ''stored''"
  "get_relation_cols (world a m ok) fs = []"
  by (simp_all add: world_def)

theorem hooks_bracket_writes_witness:
  "snd (snd (gv_add (world [] ''POST'' True) contact_view [])) =
     [Pre_add ''new+add-form'', Datamodel_add ''new+add-form'', Post_add ''new+add-form'']
   \<and> snd (snd (gv_add (world [] ''POST'' False) contact_view [])) = []
   \<and> snd (snd (gv_edit (world [] ''POST'' True) contact_view 7 [])) =
     [Pre_update ''stored+edit-form'', Datamodel_edit ''stored+edit-form'',
      Post_update ''stored+edit-form'']
   \<and> snd (snd (gv_edit (world [] ''POST'' False) contact_view 7 [])) = []
   \<and> snd (snd (gv_delete (world [] ''GET'' False) contact_view 7 [])) =
     [Pre_delete ''stored'', Datamodel_delete ''stored'', Post_delete ''stored'']"
proof -
  have p: "\<exists>pages. get_page_args [] = Inr pages"
    by (simp add: get_page_args_def md_keys_def)
  have a: "snd (snd (gv_add (world [] ''POST'' True) contact_view [])) =
     [Pre_add ''new+add-form'', Datamodel_add ''new+add-form'', Post_add ''new+add-form'']"
    using hooks_bracket_writes [of "world [] ''POST'' True" contact_view "[]" 7]
    by (simp add: world_simps set_related_def Let_def)
  have b: "snd (snd (gv_add (world [] ''POST'' False) contact_view [])) = []"
    using hooks_bracket_writes [of "world [] ''POST'' False" contact_view "[]" 7]
    by (simp add: world_simps Let_def)
  have c: "snd (snd (gv_edit (world [] ''POST'' True) contact_view 7 [])) =
     [Pre_update ''stored+edit-form'', Datamodel_edit ''stored+edit-form'',
      Post_update ''stored+edit-form'']"
    using hooks_bracket_writes [of "world [] ''POST'' True" contact_view "[]" 7] p
    by (simp add: world_simps set_related_def Let_def)
  have d: "snd (snd (gv_edit (world [] ''POST'' False) contact_view 7 [])) = []"
    using hooks_bracket_writes [of "world [] ''POST'' False" contact_view "[]" 7]
    by (simp add: world_simps Let_def)
  have e: "snd (snd (gv_delete (world [] ''GET'' False) contact_view 7 [])) =
     [Pre_delete ''stored'', Datamodel_delete ''stored'', Post_delete ''stored'']"
    using hooks_bracket_writes [of "world [] ''GET'' False" contact_view "[]" 7]
    by (simp add: world_simps Let_def)
  from a b c d e show ?thesis by simp
qed

text \<open>
C2 (amended). The outcomes of a POST, handler by handler.
  \<^verbatim>\<open>this_form_post\<close> ends with the exception of \<^verbatim>\<open>_init_vars\<close> when that raises, with
  no call made. \<^verbatim>\<open>edit\<close> first calls \<^verbatim>\<open>_get_page_args\<close> and, when that raises, ends
  with its exception before the form is validated, with no call made and the view
  untouched. Otherwise: when validation fails, the handler renders its form template
  with a form widget that holds the submitted form, and makes no hook or datamodel call
  (\<^verbatim>\<open>edit\<close> on a view whose related views are still None ends with TypeError
  instead); when validation succeeds, the handler responds with the redirect to the
  target of \<^verbatim>\<open>_get_redirect\<close> if \<^verbatim>\<open>_get_redirect\<close> returns one, and ends with the
  exception of \<^verbatim>\<open>_get_redirect\<close> if it raises.
\<close>

theorem form_post_outcomes:
  "(\<forall>e. simple_init_vars env fv = Inl e \<longrightarrow> this_form_post env fv calls = (Inl e, fv, calls))
   \<and> (\<forall>s1. simple_init_vars env fv = Inr s1 \<longrightarrow>
      (\<not> validate_on_submit env (form_refresh env) \<longrightarrow>
         renders_form (form_template s1) (form_refresh env) (fst (this_form_post env fv calls))
         \<and> snd (snd (this_form_post env fv calls)) = calls)
    \<and> (validate_on_submit env (form_refresh env) \<longrightarrow>
         (\<forall>u. get_redirect (flask_url_for env) (req_args env) s1 = Inr u \<longrightarrow>
              fst (this_form_post env fv calls) = Inr (Redirect u))
       \<and> (\<forall>e. get_redirect (flask_url_for env) (req_args env) s1 = Inl e \<longrightarrow>
              fst (this_form_post env fv calls) = Inl e)))
   \<and> (\<not> validate_on_submit env (add_form_refresh env) \<longrightarrow>
         renders_form (add_template self) (add_form_refresh env) (fst (gv_add env self calls))
         \<and> snd (snd (gv_add env self calls)) = calls)
   \<and> (validate_on_submit env (add_form_refresh env) \<longrightarrow>
         (\<forall>u. get_redirect (flask_url_for env) (req_args env) self = Inr u \<longrightarrow>
              fst (gv_add env self calls) = Inr (Redirect u))
       \<and> (\<forall>e. get_redirect (flask_url_for env) (req_args env) self = Inl e \<longrightarrow>
              fst (gv_add env self calls) = Inl e))
   \<and> (req_method env = ''POST'' \<longrightarrow>
        (\<forall>e. get_page_args (req_args env) = Inl e \<longrightarrow>
           gv_edit env self pk calls = (Inl e, self, calls))
      \<and> (\<forall>pages. get_page_args (req_args env) = Inr pages \<longrightarrow>
           (\<not> validate env (set_id env (edit_form_request env (datamodel_get env pk)) pk) \<longrightarrow>
              (related_views self \<noteq> None \<longrightarrow>
                 renders_form (edit_template self)
                   (set_id env (edit_form_request env (datamodel_get env pk)) pk)
                   (fst (gv_edit env self pk calls)))
            \<and> (related_views self = None \<longrightarrow> fst (gv_edit env self pk calls) = Inl TypeError)
            \<and> snd (snd (gv_edit env self pk calls)) = calls)
         \<and> (validate env (set_id env (edit_form_request env (datamodel_get env pk)) pk) \<longrightarrow>
              (\<forall>u. get_redirect (flask_url_for env) (req_args env) self = Inr u \<longrightarrow>
                   fst (gv_edit env self pk calls) = Inr (Redirect u))
            \<and> (\<forall>e. get_redirect (flask_url_for env) (req_args env) self = Inl e \<longrightarrow>
                   fst (gv_edit env self pk calls) = Inl e))))"
proof -
  have t0: "\<forall>e. simple_init_vars env fv = Inl e \<longrightarrow> this_form_post env fv calls = (Inl e, fv, calls)"
    by (simp add: this_form_post_def)
  have t1: "\<forall>s1. simple_init_vars env fv = Inr s1 \<longrightarrow>
      (\<not> validate_on_submit env (form_refresh env) \<longrightarrow>
         renders_form (form_template s1) (form_refresh env) (fst (this_form_post env fv calls))
         \<and> snd (snd (this_form_post env fv calls)) = calls)
    \<and> (validate_on_submit env (form_refresh env) \<longrightarrow>
         (\<forall>u. get_redirect (flask_url_for env) (req_args env) s1 = Inr u \<longrightarrow>
              fst (this_form_post env fv calls) = Inr (Redirect u))
       \<and> (\<forall>e. get_redirect (flask_url_for env) (req_args env) s1 = Inl e \<longrightarrow>
              fst (this_form_post env fv calls) = Inl e))"
    by (auto simp: this_form_post_def Let_def renders_form_def redirect_to_def)
  have a1: "\<not> validate_on_submit env (add_form_refresh env) \<longrightarrow>
         renders_form (add_template self) (add_form_refresh env) (fst (gv_add env self calls))
         \<and> snd (snd (gv_add env self calls)) = calls"
    by (auto simp: gv_add_def Let_def renders_form_def)
  have a2: "validate_on_submit env (add_form_refresh env) \<longrightarrow>
         (\<forall>u. get_redirect (flask_url_for env) (req_args env) self = Inr u \<longrightarrow>
              fst (gv_add env self calls) = Inr (Redirect u))
       \<and> (\<forall>e. get_redirect (flask_url_for env) (req_args env) self = Inl e \<longrightarrow>
              fst (gv_add env self calls) = Inl e)"
    by (simp add: gv_add_def Let_def get_redirect_view_filters redirect_to_def)
  have e0: "\<forall>e. get_page_args (req_args env) = Inl e \<longrightarrow>
           gv_edit env self pk calls = (Inl e, self, calls)"
    by (simp add: gv_edit_def)
  have e1: "req_method env = ''POST'' \<longrightarrow> (\<forall>pages. get_page_args (req_args env) = Inr pages \<longrightarrow>
           (\<not> validate env (set_id env (edit_form_request env (datamodel_get env pk)) pk) \<longrightarrow>
              (related_views self \<noteq> None \<longrightarrow>
                 renders_form (edit_template self)
                   (set_id env (edit_form_request env (datamodel_get env pk)) pk)
                   (fst (gv_edit env self pk calls)))
            \<and> (related_views self = None \<longrightarrow> fst (gv_edit env self pk calls) = Inl TypeError)
            \<and> snd (snd (gv_edit env self pk calls)) = calls))"
    by (auto simp: gv_edit_def Let_def renders_form_def get_related_list_widgets_def
             split: option.splits)
  have e2: "req_method env = ''POST'' \<longrightarrow> (\<forall>pages. get_page_args (req_args env) = Inr pages \<longrightarrow>
           (validate env (set_id env (edit_form_request env (datamodel_get env pk)) pk) \<longrightarrow>
              (\<forall>u. get_redirect (flask_url_for env) (req_args env) self = Inr u \<longrightarrow>
                   fst (gv_edit env self pk calls) = Inr (Redirect u))
            \<and> (\<forall>e. get_redirect (flask_url_for env) (req_args env) self = Inl e \<longrightarrow>
                   fst (gv_edit env self pk calls) = Inl e)))"
    by (auto simp: gv_edit_def Let_def get_redirect_view_filters redirect_to_def)
  from t0 t1 a1 a2 e0 e1 e2 show ?thesis by blast
qed

theorem form_post_outcomes_witness:
  "renders_form ''edit.html'' ''login-form'' (fst (this_form_post (world [] ''POST'' False) login_view []))
   \<and> renders_form ''add.html'' ''add-form'' (fst (gv_add (world [] ''POST'' False) contact_view []))
   \<and> fst (gv_add (world [] ''POST'' True) contact_view []) = Inr (Redirect ''/contactview/list/'')
   \<and> renders_form ''edit.html'' ''edit-form'' (fst (gv_edit (world [] ''POST'' False) contact_view 7 []))
   \<and> fst (gv_edit (world [(''next'', [''/x''])] ''POST'' True) contact_view 7 []) = Inr (Redirect ''/x'')
   \<and> gv_edit (world [(''page_a'', [''x''])] ''POST'' True) contact_view 7 []
       = (Inl ValueError, contact_view, [])
   \<and> fst (gv_add ((world [] ''POST'' True)\<lparr>flask_url_for := (\<lambda>e. None)\<rparr>) contact_view [])
       = Inl BuildError"
proof -
  have i: "simple_init_vars (world [] ''POST'' False) login_view =
      Inr (login_view\<lparr>form_columns := Some [''user'', ''password''], form_fieldsets := Some []\<rparr>)"
    by (simp add: simple_init_vars_def Let_def login_view_def init_columns_def world_def)
  have a: "renders_form ''edit.html'' ''login-form''
             (fst (this_form_post (world [] ''POST'' False) login_view []))"
    using form_post_outcomes [of "world [] ''POST'' False" login_view "[]" contact_view 7] i
    by (simp add: world_simps login_view_def)
  have b: "renders_form ''add.html'' ''add-form'' (fst (gv_add (world [] ''POST'' False) contact_view []))"
    using form_post_outcomes [of "world [] ''POST'' False" login_view "[]" contact_view 7]
    by (simp add: world_simps contact_view_def)
  have r: "get_redirect routes [] contact_view = Inr ''/contactview/list/''"
    by (simp add: get_redirect_def md_get_def routes_def py_str_def contact_view_def)
  have c: "fst (gv_add (world [] ''POST'' True) contact_view []) = Inr (Redirect ''/contactview/list/'')"
    using form_post_outcomes [of "world [] ''POST'' True" login_view "[]" contact_view 7] r
    by (simp add: world_simps)
  have p: "get_page_args [] = Inr Map.empty"
    by (simp add: get_page_args_def md_keys_def)
  have rv: "related_views contact_view \<noteq> None" "edit_template contact_view = ''edit.html''"
    by (simp_all add: contact_view_def)
  have d: "renders_form ''edit.html'' ''edit-form''
             (fst (gv_edit (world [] ''POST'' False) contact_view 7 []))"
    using form_post_outcomes [of "world [] ''POST'' False" login_view "[]" contact_view 7] p rv
    by (simp add: world_simps)
  have q: "get_page_args [(''next'', [''/x''])] = Inr Map.empty"
    by (simp add: eval_defs)
  have r2: "get_redirect routes [(''next'', [''/x''])] contact_view = Inr ''/x''"
    by (simp add: get_redirect_def md_get_def)
  have e: "fst (gv_edit (world [(''next'', [''/x''])] ''POST'' True) contact_view 7 [])
             = Inr (Redirect ''/x'')"
    using form_post_outcomes [of "world [(''next'', [''/x''])] ''POST'' True" login_view "[]" contact_view 7]
      q r2
    by (simp add: world_simps)
  have v: "get_page_args [(''page_a'', [''x''])] = Inl ValueError"
    by (simp add: eval_defs)
  have f: "gv_edit (world [(''page_a'', [''x''])] ''POST'' True) contact_view 7 []
       = (Inl ValueError, contact_view, [])"
    using form_post_outcomes [of "world [(''page_a'', [''x''])] ''POST'' True" login_view "[]" contact_view 7] v
    by (simp add: world_simps)
  let ?lost = "(world [] ''POST'' True)\<lparr>flask_url_for := (\<lambda>e. None)\<rparr>"
  have r3: "get_redirect (\<lambda>e. None) [] contact_view = Inl BuildError"
    by (simp add: get_redirect_def md_get_def contact_view_def)
  have g: "fst (gv_add ?lost contact_view []) = Inl BuildError"
    using form_post_outcomes [of ?lost login_view "[]" contact_view 7] r3
    by (simp add: world_simps)
  from a b c d e f g show ?thesis by simp
qed

text \<open>
  As first written, C2 has no outcome of a POST but the rendered form and the redirect.
  A POST to \<^verbatim>\<open>edit\<close> with the argument \<^verbatim>\<open>page_a=x\<close> ends with ValueError, whether
  the form would validate or not. A POST to \<^verbatim>\<open>add\<close> that validates, in an application
  in which neither the view's default view nor the index view resolves, ends with
  BuildError after the three calls were made.
\<close>

theorem form_post_counterexample:
  "fst (gv_edit (world [(''page_a'', [''x''])] ''POST'' True) contact_view 7 []) = Inl ValueError
   \<and> fst (gv_edit (world [(''page_a'', [''x''])] ''POST'' False) contact_view 7 []) = Inl ValueError
   \<and> gv_add ((world [] ''POST'' True)\<lparr>flask_url_for := (\<lambda>e. None)\<rparr>) contact_view [(Pre_delete ''earlier'')]
       = (Inl BuildError, contact_view\<lparr>view_filters := []\<rparr>,
          [Pre_delete ''earlier'', Pre_add ''new+add-form'', Datamodel_add ''new+add-form'',
           Post_add ''new+add-form''])"
  by (simp add: gv_edit_def gv_add_def Let_def world_simps eval_defs flt_eval_defs call_defs
        set_related_def redirect_to_def get_redirect_def contact_view_def index_app_def)

text \<open>
C7. \<^verbatim>\<open>_get_filter_args\<close> clears the collection before it adds to it, so its result
  does not depend on the filters the view held before. The handlers that read the
  filters, \<^verbatim>\<open>list\<close>, \<^verbatim>\<open>add\<close> and \<^verbatim>\<open>edit\<close>, read them after this call only: the
  outcome of each and the calls it makes are the same whatever filters an earlier
  request left, and after \<^verbatim>\<open>add\<close> the view holds the filters of the request's own
  arguments. A handler changes nothing of the view but its filter collection
  (\<^verbatim>\<open>delete\<close> changes nothing), so the filters are all that one request can leave to
  the next.
\<close>

theorem filters_rebuilt_per_request:
  "get_filter_args args fs = get_filter_args args []
   \<and> fst (gv_list env (self\<lparr>view_filters := fs\<rparr>) calls)
       = fst (gv_list env (self\<lparr>view_filters := []\<rparr>) calls)
   \<and> fst (gv_add env (self\<lparr>view_filters := fs\<rparr>) calls)
       = fst (gv_add env (self\<lparr>view_filters := []\<rparr>) calls)
   \<and> snd (snd (gv_add env (self\<lparr>view_filters := fs\<rparr>) calls))
       = snd (snd (gv_add env (self\<lparr>view_filters := []\<rparr>) calls))
   \<and> fst (gv_edit env (self\<lparr>view_filters := fs\<rparr>) pk calls)
       = fst (gv_edit env (self\<lparr>view_filters := []\<rparr>) pk calls)
   \<and> snd (snd (gv_edit env (self\<lparr>view_filters := fs\<rparr>) pk calls))
       = snd (snd (gv_edit env (self\<lparr>view_filters := []\<rparr>) pk calls))
   \<and> view_filters (fst (snd (gv_add env self calls))) = get_filter_args (req_args env) []
   \<and> (\<exists>fs'. fst (snd (gv_list env self calls)) = self\<lparr>view_filters := fs'\<rparr>)
   \<and> (\<exists>fs'. fst (snd (gv_add env self calls)) = self\<lparr>view_filters := fs'\<rparr>)
   \<and> (\<exists>fs'. fst (snd (gv_edit env self pk calls)) = self\<lparr>view_filters := fs'\<rparr>)
   \<and> fst (snd (gv_delete env self pk calls)) = self"
proof -
  have g: "\<And>a f. get_filter_args a f = get_filter_args a []"
    by (simp add: get_filter_args_def clear_filters_def)
  have u: "self = self\<lparr>view_filters := view_filters self\<rparr>" by simp
  have l: "fst (gv_list env (self\<lparr>view_filters := fs\<rparr>) calls)
       = fst (gv_list env (self\<lparr>view_filters := []\<rparr>) calls)"
    by (cases "get_page_args (req_args env)")
       (simp_all add: gv_list_def Let_def g [of _ fs])
  have a1: "fst (gv_add env (self\<lparr>view_filters := fs\<rparr>) calls)
       = fst (gv_add env (self\<lparr>view_filters := []\<rparr>) calls)"
    by (simp add: gv_add_def Let_def g [of _ fs] get_redirect_view_filters)
  have a2: "snd (snd (gv_add env (self\<lparr>view_filters := fs\<rparr>) calls))
       = snd (snd (gv_add env (self\<lparr>view_filters := []\<rparr>) calls))"
    by (simp add: gv_add_def Let_def g [of _ fs])
  have e1: "fst (gv_edit env (self\<lparr>view_filters := fs\<rparr>) pk calls)
       = fst (gv_edit env (self\<lparr>view_filters := []\<rparr>) pk calls)"
    by (cases "get_page_args (req_args env)")
       (simp_all add: gv_edit_def Let_def g [of _ fs] get_redirect_view_filters
          get_related_list_widgets_def split: option.splits)
  have e2: "snd (snd (gv_edit env (self\<lparr>view_filters := fs\<rparr>) pk calls))
       = snd (snd (gv_edit env (self\<lparr>view_filters := []\<rparr>) pk calls))"
    by (cases "get_page_args (req_args env)")
       (simp_all add: gv_edit_def Let_def g [of _ fs] get_related_list_widgets_def
          split: option.splits)
  have a3: "view_filters (fst (snd (gv_add env self calls))) = get_filter_args (req_args env) []"
    by (simp add: gv_add_def Let_def g [of _ "view_filters self"])
  have s1: "\<exists>fs'. fst (snd (gv_list env self calls)) = self\<lparr>view_filters := fs'\<rparr>"
  proof (cases "get_page_args (req_args env)")
    case (Inl e)
    then have "fst (snd (gv_list env self calls)) = self" by (simp add: gv_list_def Let_def)
    with u show ?thesis by metis
  next
    case (Inr pages)
    then show ?thesis by (auto simp: gv_list_def Let_def)
  qed
  have s2: "\<exists>fs'. fst (snd (gv_add env self calls)) = self\<lparr>view_filters := fs'\<rparr>"
    by (auto simp: gv_add_def Let_def)
  have s3: "\<exists>fs'. fst (snd (gv_edit env self pk calls)) = self\<lparr>view_filters := fs'\<rparr>"
  proof (cases "get_page_args (req_args env)")
    case (Inl e)
    then have "fst (snd (gv_edit env self pk calls)) = self" by (simp add: gv_edit_def)
    with u show ?thesis by metis
  next
    case (Inr pages)
    then show ?thesis
      by (auto simp: gv_edit_def Let_def split: sum.splits)
  qed
  have s4: "fst (snd (gv_delete env self pk calls)) = self"
    by (simp add: gv_delete_def Let_def)
  from g [of args fs] l a1 a2 e1 e2 a3 s1 s2 s3 s4 show ?thesis by blast
qed

end
